theory Spec2Isabelle
  imports Main
begin

section \<open>JavaScript values and the operators the handler uses\<close>

text \<open>
  The handler is TypeScript over untyped JSON: the reply of the AI service and the
  nullable columns of a conversation row are arbitrary JSON values, and the handler
  combines them with \<^verbatim>\<open>||\<close>, \<^verbatim>\<open>&&\<close> and \<^verbatim>\<open>!\<close>, which test truthiness. A missing property
  reads as \<open>JUndefined\<close>. Numbers are integers here; truthiness only separates zero
  from the rest. Arrays and objects are truthy, also when empty.
\<close>

datatype jsval =
    JUndefined
  | JNull
  | JBool bool
  | JNum int
  | JStr string
  | JArr "jsval list"
  | JObj "(string \<times> jsval) list"

fun truthy :: "jsval \<Rightarrow> bool" where
  "truthy JUndefined = False"
| "truthy JNull = False"
| "truthy (JBool b) = b"
| "truthy (JNum n) = (n \<noteq> 0)"
| "truthy (JStr s) = (s \<noteq> [])"
| "truthy (JArr xs) = True"
| "truthy (JObj kvs) = True"

definition js_or :: "jsval \<Rightarrow> jsval \<Rightarrow> jsval" where
  "js_or a b = (if truthy a then a else b)"

definition js_and :: "jsval \<Rightarrow> jsval \<Rightarrow> jsval" where
  "js_and a b = (if truthy a then b else a)"

definition js_not :: "jsval \<Rightarrow> jsval" where
  "js_not a = JBool (\<not> truthy a)"

text \<open>\<^verbatim>\<open>a || b\<close> on an optional string: absent and empty are both falsy.\<close>

definition str_or :: "string option \<Rightarrow> string \<Rightarrow> string" where
  "str_or a b = (case a of None \<Rightarrow> b | Some s \<Rightarrow> if s = [] then b else s)"

text \<open>\<^verbatim>\<open>s.replace(pat, '')\<close> with a string pattern: only the first occurrence goes.\<close>

fun remove_first :: "string \<Rightarrow> string \<Rightarrow> string" where
  "remove_first [] pat = []"
| "remove_first (c # cs) pat =
     (if take (length pat) (c # cs) = pat then drop (length pat) (c # cs)
      else c # remove_first cs pat)"

fun includes_str :: "string \<Rightarrow> string \<Rightarrow> bool" where
  "includes_str [] pat = (pat = [])"
| "includes_str (c # cs) pat = (take (length pat) (c # cs) = pat \<or> includes_str cs pat)"

text \<open>Decimal digits of a clock reading, for the synthesised message id.\<close>

fun digits :: "nat \<Rightarrow> string" where
  "digits n = (if n < 10 then [''0123456789'' ! n]
               else digits (n div 10) @ [''0123456789'' ! (n mod 10)])"

section \<open>Data model\<close>

datatype error = Thrown string

record hospital =
  h_id :: string
  h_name :: string
  whatsapp_enabled :: bool
  whatsapp_number :: "string option"
  organization_type :: "string option"

record turn =
  role :: string
  content :: jsval
  timestamp :: int
  turn_messageSid :: "string option"

text \<open>
  A row of \<^verbatim>\<open>whatsapp_conversations\<close>. The columns the handler merges are JSON values
  (\<open>JNull\<close> is SQL NULL; a row read from the store never holds \<open>JUndefined\<close>); the
  transcript is an array of turns or NULL; timestamps are milliseconds.
\<close>

record conversation =
  c_id :: string
  hospital_id :: string
  patient_phone :: string
  conversation_state :: jsval
  collected_symptoms :: jsval
  triage_level :: jsval
  urgency_score :: jsval
  first_aid_given :: jsval
  patient_name :: jsval
  appointment_created :: jsval
  transcript :: "turn list option"
  last_message_at :: "int option"
  created_at :: int

text \<open>The fields the handler reads of the AI service's JSON reply.\<close>

record ai_result =
  ai_response :: jsval
  ai_newState :: jsval
  ai_symptoms :: jsval
  ai_triageLevel :: jsval
  ai_patientName :: jsval
  ai_urgencyScore :: jsval
  ai_firstAid :: jsval
  ai_createAppointment :: jsval
  ai_preferredDate :: jsval
  ai_preferredTime :: jsval

text \<open>Body of the request to \<^verbatim>\<open>whatsapp-ai-conversation\<close>.\<close>

record ai_request =
  q_conversationId :: string
  q_patientPhone :: string
  q_hospitalId :: string
  q_hospitalName :: string
  q_message :: string
  q_transcript :: "turn list"
  q_conversationState :: jsval
  q_existingSymptoms :: jsval
  q_existingTriageLevel :: jsval
  q_existingPatientName :: jsval

text \<open>Body of the request to \<^verbatim>\<open>whatsapp-create-appointment\<close>.\<close>

record appointment_request =
  a_conversationId :: string
  a_hospitalId :: string
  a_patientPhone :: string
  a_patientName :: jsval
  a_symptoms :: jsval
  a_triageLevel :: jsval
  a_urgencyScore :: jsval
  a_firstAidGiven :: jsval
  a_preferredDate :: jsval
  a_preferredTime :: jsval
  a_transcript :: "turn list"

datatype outbound =
    AiConversation ai_request
  | TwilioMessage string string jsval
  | CreateAppointment appointment_request

text \<open>
  What a request can change: the two tables and the calls that left the process, in
  order. One request runs at a time. Reads and updates of the store succeed (the
  handler never looks at their errors); only the insert can fail, and the three HTTP
  calls can throw.
\<close>

record world =
  hospitals :: "hospital list"
  conversations :: "conversation list"
  outbox :: "outbound list"

record config =
  TWILIO_ACCOUNT_SID :: "string option"
  TWILIO_AUTH_TOKEN :: "string option"

text \<open>
  What the surroundings answer during one request: the clock at each reading, the row
  the store assigns on insert (its id, creation time and column defaults) or the
  insert's error, and the outcome of each of the three HTTP calls.
\<close>

record env =
  t_received :: nat
  t_lookup :: int
  t_inbound :: int
  t_persist :: int
  t_outbound :: int
  insert_outcome :: "error + conversation"
  ai_outcome :: "error + ai_result"
  twilio_outcome :: "error + jsval"
  appointment_outcome :: "error option"

record request =
  http_method :: string
  content_type :: "string option"
  payload :: "error + (string \<times> string) list"

record message =
  msg_from :: string
  msg_to :: string
  body :: string
  messageSid :: string
  isBaileysBot :: bool

datatype response =
    Preflight
  | JsonResponse nat "(string \<times> jsval) list"
  | XmlResponse nat string

section \<open>Decoding the inbound payload (lines 35 to 72)\<close>

text \<open>
  \<open>payload\<close> is the parsed body, or the error with which \<^verbatim>\<open>req.json()\<close> or
  \<^verbatim>\<open>req.formData()\<close> rejects; the text fields of either shape are strings.
  \<^verbatim>\<open>numMedia\<close> is read and never used, so it is left out.
\<close>

definition contentType :: "request \<Rightarrow> string" where
  "contentType req = str_or (content_type req) ''''"

definition decode :: "env \<Rightarrow> request \<Rightarrow> error + message" where
  "decode e req =
     (case payload req of
        Inl err \<Rightarrow> Inl err
      | Inr p \<Rightarrow>
          if includes_str (contentType req) ''application/json'' then
            Inr \<lparr>msg_from = str_or (map_of p ''from'') '''',
                 msg_to = str_or (map_of p ''to'') '''',
                 body = str_or (map_of p ''body'') (str_or (map_of p ''message'') ''''),
                 messageSid = str_or (map_of p ''messageSid'')
                     (str_or (map_of p ''messageId'') (''baileys-'' @ digits (t_received e))),
                 isBaileysBot = True\<rparr>
          else
            Inr \<lparr>msg_from = str_or (map_of p ''From'') '''',
                 msg_to = str_or (map_of p ''To'') '''',
                 body = str_or (map_of p ''Body'') '''',
                 messageSid = str_or (map_of p ''MessageSid'') '''',
                 isBaileysBot = False\<rparr>)"

definition stripAddress :: "string \<Rightarrow> string" where
  "stripAddress a = remove_first (remove_first a ''whatsapp:'') ''+''"

section \<open>Finding the hospital (lines 77 to 128)\<close>

text \<open>
  \<^verbatim>\<open>.single()\<close> yields the row when the query returns exactly one row, and null data
  (with an error the handler never reads) when it returns none or several.
\<close>

definition single_row :: "'a list \<Rightarrow> 'a option" where
  "single_row rows = (case rows of [r] \<Rightarrow> Some r | _ \<Rightarrow> None)"

definition matches_number :: "string \<Rightarrow> hospital \<Rightarrow> bool" where
  "matches_number hospitalWhatsApp h \<longleftrightarrow>
     (whatsapp_number h = Some hospitalWhatsApp
        \<or> whatsapp_number h = Some (''+'' @ hospitalWhatsApp))
     \<and> whatsapp_enabled h"

definition hospital_query :: "hospital list \<Rightarrow> string \<Rightarrow> hospital option" where
  "hospital_query hs hospitalWhatsApp =
     single_row (filter (matches_number hospitalWhatsApp) hs)"

definition fallbackHospital :: "hospital list \<Rightarrow> hospital option" where
  "fallbackHospital hs =
     single_row (take 1 (filter (\<lambda>h. organization_type h = Some ''hospital'') hs))"

text \<open>The pair \<^verbatim>\<open>(hospitalId, hospitalName)\<close> after line 107.\<close>

definition resolveHospital :: "hospital list \<Rightarrow> string \<Rightarrow> string option \<times> string" where
  "resolveHospital hs hospitalWhatsApp =
     (case hospital_query hs hospitalWhatsApp of
        Some h \<Rightarrow> (Some (h_id h), h_name h)
      | None \<Rightarrow>
          (case fallbackHospital hs of
             Some f \<Rightarrow> (Some (h_id f), h_name f)
           | None \<Rightarrow> (None, ''the hospital'')))"

definition notConfigured :: "message \<Rightarrow> response" where
  \<open>notConfigured m =
     (if isBaileysBot m then
        JsonResponse 200
          [(''success'', JBool False),
           (''error'', JStr ''Service not configured''),
           (''response'', JStr ''Sorry, this service is not configured. Please contact the hospital directly.'')]
      else
        XmlResponse 200
          ''<?xml version="1.0" encoding="UTF-8"?><Response><Message>Sorry, this service is not configured. Please contact the hospital directly.</Message></Response>'')\<close>

section \<open>Finding or creating the conversation (lines 130 to 170)\<close>

text \<open>
  The filters are SQL comparisons: a NULL column satisfies neither \<^verbatim>\<open>neq\<close> nor \<^verbatim>\<open>gte\<close>.
  \<^verbatim>\<open>order('created_at', {ascending: false})\<close> is a stable sort on the creation time,
  so rows created at the same instant keep the table's order.
\<close>

definition sql_neq :: "jsval \<Rightarrow> string \<Rightarrow> bool" where
  "sql_neq v s = (case v of JStr x \<Rightarrow> x \<noteq> s | _ \<Rightarrow> False)"

definition sql_gte :: "int option \<Rightarrow> int \<Rightarrow> bool" where
  "sql_gte v t = (case v of Some x \<Rightarrow> t \<le> x | None \<Rightarrow> False)"

definition active :: "string \<Rightarrow> string \<Rightarrow> int \<Rightarrow> conversation \<Rightarrow> bool" where
  "active hospitalId patientPhone twoHoursAgo c \<longleftrightarrow>
     hospital_id c = hospitalId
     \<and> patient_phone c = patientPhone
     \<and> sql_neq (conversation_state c) ''completed''
     \<and> sql_gte (last_message_at c) twoHoursAgo"

definition existingConversation ::
  "conversation list \<Rightarrow> string \<Rightarrow> string \<Rightarrow> int \<Rightarrow> conversation option" where
  "existingConversation cs hospitalId patientPhone twoHoursAgo =
     single_row (take 1 (sort_key (\<lambda>c. - created_at c)
       (filter (active hospitalId patientPhone twoHoursAgo) cs)))"

text \<open>
  The inserted row: the four columns the handler sets, on top of what the store
  assigns (\<open>assigned\<close>: id, creation time and the defaults of every other column).
\<close>

definition newConversation :: "conversation \<Rightarrow> string \<Rightarrow> string \<Rightarrow> conversation" where
  "newConversation assigned hospitalId patientPhone =
     assigned\<lparr>hospital_id := hospitalId,
              patient_phone := patientPhone,
              conversation_state := JStr ''greeting'',
              transcript := Some []\<rparr>"

definition findOrCreate ::
  "env \<Rightarrow> string \<Rightarrow> string \<Rightarrow> world \<Rightarrow> (error + conversation) \<times> world" where
  "findOrCreate e hospitalId patientPhone w =
     (case existingConversation (conversations w) hospitalId patientPhone
             (t_lookup e - 2 * 60 * 60 * 1000) of
        Some c \<Rightarrow> (Inr c, w)
      | None \<Rightarrow>
          (case insert_outcome e of
             Inl createError \<Rightarrow> (Inl createError, w)
           | Inr assigned \<Rightarrow>
               (let n = newConversation assigned hospitalId patientPhone
                in (Inr n, w\<lparr>conversations := conversations w @ [n]\<rparr>))))"

section \<open>Transcript, merge and appointment decision (lines 172 to 296)\<close>

text \<open>\<^verbatim>\<open>.update(...).eq('id', id)\<close>: every row with that id gets the new columns.\<close>

definition update_eq_id ::
  "string \<Rightarrow> (conversation \<Rightarrow> conversation) \<Rightarrow> conversation list \<Rightarrow> conversation list" where
  "update_eq_id cid f cs = map (\<lambda>c. if c_id c = cid then f c else c) cs"

definition transcript_or_empty :: "conversation \<Rightarrow> turn list" where
  "transcript_or_empty c = (case transcript c of None \<Rightarrow> [] | Some ts \<Rightarrow> ts)"

definition updatedTranscript :: "conversation \<Rightarrow> message \<Rightarrow> int \<Rightarrow> turn list" where
  "updatedTranscript conversation m now =
     transcript_or_empty conversation @
       [\<lparr>role = ''patient'', content = JStr (body m), timestamp = now,
         turn_messageSid = Some (messageSid m)\<rparr>]"

definition firstUpdate :: "turn list \<Rightarrow> int \<Rightarrow> conversation \<Rightarrow> conversation" where
  "firstUpdate updatedT now row =
     row\<lparr>transcript := Some updatedT, last_message_at := Some now\<rparr>"

definition finalTranscript :: "turn list \<Rightarrow> ai_result \<Rightarrow> int \<Rightarrow> turn list" where
  "finalTranscript updatedT aiResult now =
     updatedT @
       [\<lparr>role = ''assistant'', content = ai_response aiResult, timestamp = now,
         turn_messageSid = None\<rparr>]"

definition newState :: "ai_result \<Rightarrow> conversation \<Rightarrow> jsval" where
  "newState aiResult conversation = js_or (ai_newState aiResult) (conversation_state conversation)"

definition collectedSymptoms :: "ai_result \<Rightarrow> conversation \<Rightarrow> jsval" where
  "collectedSymptoms aiResult conversation =
     js_or (ai_symptoms aiResult) (collected_symptoms conversation)"

definition triageLevel :: "ai_result \<Rightarrow> conversation \<Rightarrow> jsval" where
  "triageLevel aiResult conversation = js_or (ai_triageLevel aiResult) (triage_level conversation)"

definition patientName :: "ai_result \<Rightarrow> conversation \<Rightarrow> jsval" where
  "patientName aiResult conversation = js_or (ai_patientName aiResult) (patient_name conversation)"

definition urgencyScore :: "ai_result \<Rightarrow> conversation \<Rightarrow> jsval" where
  "urgencyScore aiResult conversation =
     js_or (ai_urgencyScore aiResult) (urgency_score conversation)"

definition firstAidGiven :: "ai_result \<Rightarrow> conversation \<Rightarrow> jsval" where
  "firstAidGiven aiResult conversation =
     js_or (ai_firstAid aiResult) (first_aid_given conversation)"

definition preferredDate :: "ai_result \<Rightarrow> jsval" where
  "preferredDate aiResult = js_or (ai_preferredDate aiResult) JNull"

definition preferredTime :: "ai_result \<Rightarrow> jsval" where
  "preferredTime aiResult = js_or (ai_preferredTime aiResult) JNull"

definition finalUpdate ::
  "conversation \<Rightarrow> ai_result \<Rightarrow> turn list \<Rightarrow> conversation \<Rightarrow> conversation" where
  "finalUpdate conversation aiResult finalT row =
     row\<lparr>transcript := Some finalT,
         conversation_state := newState aiResult conversation,
         collected_symptoms := collectedSymptoms aiResult conversation,
         triage_level := triageLevel aiResult conversation,
         urgency_score := urgencyScore aiResult conversation,
         first_aid_given := firstAidGiven aiResult conversation,
         patient_name := patientName aiResult conversation\<rparr>"

text \<open>
  The value of the expression at lines 262 to 271 (\<^verbatim>\<open>a && b && c\<close> groups to the left);
  the \<^verbatim>\<open>if\<close> at line 273 tests its truthiness.
\<close>

definition shouldCreateAppointment :: "conversation \<Rightarrow> ai_result \<Rightarrow> jsval" where
  "shouldCreateAppointment conversation aiResult =
     js_and (js_not (appointment_created conversation))
       (js_or (JBool (ai_createAppointment aiResult = JBool True))
          (js_and
             (js_and (collectedSymptoms aiResult conversation)
                     (triageLevel aiResult conversation))
             (JBool (triageLevel aiResult conversation \<noteq> JStr ''CRITICAL''))))"

definition appointmentBody ::
  "conversation \<Rightarrow> string \<Rightarrow> string \<Rightarrow> ai_result \<Rightarrow> turn list \<Rightarrow> appointment_request" where
  "appointmentBody conversation hospitalId patientPhone aiResult finalT =
     \<lparr>a_conversationId = c_id conversation,
      a_hospitalId = hospitalId,
      a_patientPhone = patientPhone,
      a_patientName = js_or (patientName aiResult conversation) (JStr ''WhatsApp Patient''),
      a_symptoms = collectedSymptoms aiResult conversation,
      a_triageLevel = triageLevel aiResult conversation,
      a_urgencyScore = urgencyScore aiResult conversation,
      a_firstAidGiven = firstAidGiven aiResult conversation,
      a_preferredDate = preferredDate aiResult,
      a_preferredTime = preferredTime aiResult,
      a_transcript = finalT\<rparr>"

section \<open>Sending through Twilio (lines 346 to 374)\<close>

definition unset :: "string option \<Rightarrow> bool" where
  "unset v = (case v of None \<Rightarrow> True | Some s \<Rightarrow> s = [])"

definition sendWhatsAppMessageViaTwilio ::
  "config \<Rightarrow> env \<Rightarrow> string \<Rightarrow> string \<Rightarrow> jsval \<Rightarrow> world \<Rightarrow> (error + jsval) \<times> world" where
  "sendWhatsAppMessageViaTwilio cfg e from_number to_number text w =
     (if unset (TWILIO_ACCOUNT_SID cfg) \<or> unset (TWILIO_AUTH_TOKEN cfg) then (Inr JNull, w)
      else
        (twilio_outcome e,
         w\<lparr>outbox := outbox w @
              [TwilioMessage (''whatsapp:+'' @ from_number) (''whatsapp:+'' @ to_number) text]\<rparr>))"

section \<open>The request handler (lines 28 to 344)\<close>

definition successResponse :: "message \<Rightarrow> ai_result \<Rightarrow> conversation \<Rightarrow> response" where
  \<open>successResponse m aiResult conversation =
     (if isBaileysBot m then
        JsonResponse 200
          [(''success'', JBool True),
           (''response'', ai_response aiResult),
           (''conversationId'', JStr (c_id conversation)),
           (''conversationState'', newState aiResult conversation)]
      else XmlResponse 200 ''<?xml version="1.0" encoding="UTF-8"?><Response></Response>'')\<close>

definition errorResponse :: "request \<Rightarrow> error \<Rightarrow> response" where
  \<open>errorResponse req err =
     (if includes_str (contentType req) ''application/json'' then
        JsonResponse 500
          [(''success'', JBool False),
           (''error'', (case err of Thrown msg \<Rightarrow> JStr msg)),
           (''response'', JStr ''Sorry, there was an error processing your message. Please try again.'')]
      else
        XmlResponse 200
          ''<?xml version="1.0" encoding="UTF-8"?><Response><Message>Sorry, there was an error processing your message. Please try again.</Message></Response>'')\<close>

text \<open>Lines 216 to 316: what follows the AI service's reply.\<close>

definition afterReply ::
  "config \<Rightarrow> env \<Rightarrow> message \<Rightarrow> string \<Rightarrow> string \<Rightarrow> string \<Rightarrow> conversation \<Rightarrow> turn list
     \<Rightarrow> ai_result \<Rightarrow> world \<Rightarrow> (error + response) \<times> world" where
  "afterReply cfg e m hospitalId hospitalWhatsApp patientPhone conversation updatedT aiResult w =
     (case (if isBaileysBot m then (Inr JNull, w)
            else sendWhatsAppMessageViaTwilio cfg e hospitalWhatsApp patientPhone
                   (ai_response aiResult) w) of
        (Inl err, w1) \<Rightarrow> (Inl err, w1)
      | (Inr sent, w1) \<Rightarrow>
          (let finalT = finalTranscript updatedT aiResult (t_outbound e);
               w2 = w1\<lparr>conversations :=
                      update_eq_id (c_id conversation)
                        (finalUpdate conversation aiResult finalT) (conversations w1)\<rparr>
           in if truthy (shouldCreateAppointment conversation aiResult) then
                (let w3 = w2\<lparr>outbox := outbox w2 @
                            [CreateAppointment
                               (appointmentBody conversation hospitalId patientPhone
                                  aiResult finalT)]\<rparr>
                 in case appointment_outcome e of
                      Some err \<Rightarrow> (Inl err, w3)
                    | None \<Rightarrow> (Inr (successResponse m aiResult conversation), w3))
              else (Inr (successResponse m aiResult conversation), w2)))"

text \<open>Lines 172 to 214: the inbound turn, its write, and the call to the AI service.\<close>

definition withConversation ::
  "config \<Rightarrow> env \<Rightarrow> message \<Rightarrow> string \<Rightarrow> string \<Rightarrow> string \<Rightarrow> string \<Rightarrow> conversation
     \<Rightarrow> world \<Rightarrow> (error + response) \<times> world" where
  "withConversation cfg e m hospitalId hospitalName hospitalWhatsApp patientPhone conversation w =
     (let updatedT = updatedTranscript conversation m (t_inbound e);
          w1 = w\<lparr>conversations :=
                 update_eq_id (c_id conversation) (firstUpdate updatedT (t_persist e))
                   (conversations w)\<rparr>;
          w2 = w1\<lparr>outbox := outbox w1 @
                 [AiConversation
                    \<lparr>q_conversationId = c_id conversation,
                     q_patientPhone = patientPhone,
                     q_hospitalId = hospitalId,
                     q_hospitalName = hospitalName,
                     q_message = body m,
                     q_transcript = updatedT,
                     q_conversationState = conversation_state conversation,
                     q_existingSymptoms = collected_symptoms conversation,
                     q_existingTriageLevel = triage_level conversation,
                     q_existingPatientName = patient_name conversation\<rparr>]\<rparr>
      in case ai_outcome e of
           Inl err \<Rightarrow> (Inl err, w2)
         | Inr aiResult \<Rightarrow>
             afterReply cfg e m hospitalId hospitalWhatsApp patientPhone conversation
               updatedT aiResult w2)"

text \<open>Lines 70 to 170: addresses, hospital, conversation.\<close>

definition routed :: "config \<Rightarrow> env \<Rightarrow> message \<Rightarrow> world \<Rightarrow> (error + response) \<times> world" where
  "routed cfg e m w =
     (let patientPhone = stripAddress (msg_from m);
          hospitalWhatsApp = stripAddress (msg_to m)
      in case resolveHospital (hospitals w) hospitalWhatsApp of
           (None, hospitalName) \<Rightarrow> (Inr (notConfigured m), w)
         | (Some hospitalId, hospitalName) \<Rightarrow>
             if hospitalId = [] then (Inr (notConfigured m), w)
             else
               (case findOrCreate e hospitalId patientPhone w of
                  (Inl err, w1) \<Rightarrow> (Inl err, w1)
                | (Inr conversation, w1) \<Rightarrow>
                    withConversation cfg e m hospitalId hospitalName hospitalWhatsApp
                      patientPhone conversation w1))"

definition serve :: "config \<Rightarrow> env \<Rightarrow> request \<Rightarrow> world \<Rightarrow> response \<times> world" where
  "serve cfg e req w =
     (if http_method req = ''OPTIONS'' then (Preflight, w)
      else
        (case decode e req of
           Inl err \<Rightarrow> (errorResponse req err, w)
         | Inr m \<Rightarrow>
             (case routed cfg e m w of
                (Inl err, w1) \<Rightarrow> (errorResponse req err, w1)
              | (Inr resp, w1) \<Rightarrow> (resp, w1))))"

section \<open>Vocabulary for the statements\<close>

text \<open>
  The Twilio send lets the request go on when it is not attempted (other channel,
  credentials unset) or when its HTTP call returns.
\<close>

definition send_completes :: "config \<Rightarrow> env \<Rightarrow> message \<Rightarrow> bool" where
  "send_completes cfg e m \<longleftrightarrow>
     isBaileysBot m \<or> unset (TWILIO_ACCOUNT_SID cfg) \<or> unset (TWILIO_AUTH_TOKEN cfg)
     \<or> \<not> isl (twilio_outcome e)"

fun is_twilio :: "outbound \<Rightarrow> bool" where
  "is_twilio (TwilioMessage f t b) = True"
| "is_twilio (AiConversation q) = False"
| "is_twilio (CreateAppointment a) = False"

text \<open>Two outcomes of a request that differ at most in the Twilio messages sent.\<close>

definition apart_from_twilio :: "'a \<times> world \<Rightarrow> 'a \<times> world \<Rightarrow> bool" where
  "apart_from_twilio x y \<longleftrightarrow>
     fst x = fst y
     \<and> hospitals (snd x) = hospitals (snd y)
     \<and> conversations (snd x) = conversations (snd y)
     \<and> filter (\<lambda>call. \<not> is_twilio call) (outbox (snd x))
       = filter (\<lambda>call. \<not> is_twilio call) (outbox (snd y))"

section \<open>Sample data\<close>

text \<open>
  A reply of the AI service that carries only the text; a row as the store assigns it
  (every nullable column NULL, the flag false); one enabled hospital; a Twilio form
  post and a bot post from the same patient to that hospital; surroundings in which
  every call returns and the clock stands at \<open>now\<close>.
\<close>

definition reply_only :: "jsval \<Rightarrow> ai_result" where
  "reply_only text =
     \<lparr>ai_response = text, ai_newState = JUndefined, ai_symptoms = JUndefined,
      ai_triageLevel = JUndefined, ai_patientName = JUndefined, ai_urgencyScore = JUndefined,
      ai_firstAid = JUndefined, ai_createAppointment = JUndefined,
      ai_preferredDate = JUndefined, ai_preferredTime = JUndefined\<rparr>"

definition assigned_row :: "string \<Rightarrow> int \<Rightarrow> conversation" where
  "assigned_row cid now =
     \<lparr>c_id = cid, hospital_id = [], patient_phone = [], conversation_state = JNull,
      collected_symptoms = JNull, triage_level = JNull, urgency_score = JNull,
      first_aid_given = JNull, patient_name = JNull, appointment_created = JBool False,
      transcript = None, last_message_at = Some now, created_at = now\<rparr>"

definition demo_hospital :: hospital where
  "demo_hospital =
     \<lparr>h_id = ''h1'', h_name = ''General'', whatsapp_enabled = True,
      whatsapp_number = Some ''+15559876543'', organization_type = Some ''hospital''\<rparr>"

definition twilio_form :: "string \<Rightarrow> request" where
  "twilio_form text =
     \<lparr>http_method = ''POST'', content_type = Some ''application/x-www-form-urlencoded'',
      payload = Inr [(''From'', ''whatsapp:+15551234567''), (''To'', ''whatsapp:+15559876543''),
                      (''Body'', text), (''MessageSid'', ''SM1'')]\<rparr>"

definition bot_json :: "string \<Rightarrow> request" where
  "bot_json text =
     \<lparr>http_method = ''POST'', content_type = Some ''application/json'',
      payload = Inr [(''from'', ''whatsapp:+15551234567''), (''to'', ''whatsapp:+15559876543''),
                      (''body'', text), (''messageId'', ''B1'')]\<rparr>"

definition twilio_message :: "string \<Rightarrow> message" where
  "twilio_message text =
     \<lparr>msg_from = ''whatsapp:+15551234567'', msg_to = ''whatsapp:+15559876543'',
      body = text, messageSid = ''SM1'', isBaileysBot = False\<rparr>"

definition bot_message :: "string \<Rightarrow> message" where
  "bot_message text =
     \<lparr>msg_from = ''whatsapp:+15551234567'', msg_to = ''whatsapp:+15559876543'',
      body = text, messageSid = ''B1'', isBaileysBot = True\<rparr>"

definition calm_env :: "int \<Rightarrow> conversation \<Rightarrow> ai_result \<Rightarrow> env" where
  "calm_env now assigned aiResult =
     \<lparr>t_received = nat now, t_lookup = now, t_inbound = now, t_persist = now, t_outbound = now,
      insert_outcome = Inr assigned, ai_outcome = Inr aiResult,
      twilio_outcome = Inr JNull, appointment_outcome = None\<rparr>"

definition no_twilio :: config where
  "no_twilio = \<lparr>TWILIO_ACCOUNT_SID = None, TWILIO_AUTH_TOKEN = None\<rparr>"

definition with_twilio :: config where
  "with_twilio = \<lparr>TWILIO_ACCOUNT_SID = Some ''AC1'', TWILIO_AUTH_TOKEN = Some ''token''\<rparr>"

definition fever_reply :: ai_result where
  "fever_reply =
     (reply_only (JStr ''ok''))\<lparr>ai_triageLevel := JStr ''MODERATE'',
                                  ai_symptoms := JArr [JStr ''fever'']\<rparr>"

definition critical_reply :: ai_result where
  "critical_reply =
     (reply_only (JStr ''ok''))\<lparr>ai_triageLevel := JStr ''CRITICAL'',
                                  ai_symptoms := JArr [JStr ''chest pain'']\<rparr>"

definition returning_row :: conversation where
  "returning_row =
     (assigned_row ''c0'' 500)\<lparr>hospital_id := ''h1'', patient_phone := ''15551234567'',
        conversation_state := JStr ''collecting'', urgency_score := JNum 5,
        transcript := Some [\<lparr>role = ''patient'', content = JStr ''hello'', timestamp = 500,
                             turn_messageSid = Some ''SM0''\<rparr>]\<rparr>"

definition first_visit :: world where
  "first_visit = \<lparr>hospitals = [demo_hospital], conversations = [], outbox = []\<rparr>"

definition return_visit :: world where
  "return_visit = \<lparr>hospitals = [demo_hospital], conversations = [returning_row], outbox = []\<rparr>"

definition disabled_only :: world where
  "disabled_only =
     \<lparr>hospitals = [demo_hospital\<lparr>whatsapp_enabled := False\<rparr>], conversations = [],
      outbox = []\<rparr>"

definition clinic_only :: world where
  "clinic_only =
     \<lparr>hospitals = [demo_hospital\<lparr>whatsapp_enabled := False, organization_type := Some ''clinic''\<rparr>],
      conversations = [returning_row], outbox = []\<rparr>"

section \<open>Collections of defining equations\<close>

declare digits.simps [simp del]

lemmas merged_defs = newState_def collectedSymptoms_def triageLevel_def patientName_def
  urgencyScore_def firstAidGiven_def

lemmas sample_defs = reply_only_def assigned_row_def demo_hospital_def twilio_form_def
  bot_json_def twilio_message_def bot_message_def calm_env_def no_twilio_def with_twilio_def fever_reply_def
  critical_reply_def returning_row_def first_visit_def return_visit_def clinic_only_def disabled_only_def

lemmas handler_defs = serve_def decode_def contentType_def str_or_def stripAddress_def
  routed_def resolveHospital_def hospital_query_def fallbackHospital_def single_row_def
  matches_number_def findOrCreate_def existingConversation_def active_def sql_neq_def
  sql_gte_def newConversation_def withConversation_def updatedTranscript_def firstUpdate_def
  transcript_or_empty_def update_eq_id_def afterReply_def sendWhatsAppMessageViaTwilio_def
  unset_def finalTranscript_def finalUpdate_def newState_def collectedSymptoms_def
  triageLevel_def patientName_def urgencyScore_def firstAidGiven_def preferredDate_def
  preferredTime_def shouldCreateAppointment_def appointmentBody_def js_or_def js_and_def
  js_not_def successResponse_def errorResponse_def notConfigured_def Let_def

section \<open>Facts about the stages of the handler\<close>

lemma single_row_take1:
  "single_row (take (Suc 0) xs) = (case xs of [] \<Rightarrow> None | x # _ \<Rightarrow> Some x)"
  by (cases xs) (simp_all add: single_row_def)

lemma length_update_eq_id: "length (update_eq_id cid f cs) = length cs"
  by (simp add: update_eq_id_def)

lemma nth_update_eq_id:
  "i < length cs \<Longrightarrow>
   update_eq_id cid f cs ! i = (if c_id (cs ! i) = cid then f (cs ! i) else cs ! i)"
  by (simp add: update_eq_id_def)

lemma newest_first:
  assumes "sort_key (\<lambda>c. - created_at c) ys = x # xs" and "d \<in> set ys"
  shows "created_at d \<le> created_at (x :: conversation)"
proof -
  have "sorted (map (\<lambda>c. - created_at c) (sort_key (\<lambda>c. - created_at c) ys))"
    by (rule sorted_sort_key)
  with assms(1) have "\<forall>y \<in> set xs. - created_at x \<le> - created_at y"
    by simp
  moreover from assms have "d = x \<or> d \<in> set xs"
    by (metis set_ConsD set_sort)
  ultimately show ?thesis by auto
qed

lemma existingConversation_Some:
  assumes "existingConversation cs h p t = Some c"
  shows "c \<in> set cs \<and> active h p t c
         \<and> (\<forall>d \<in> set cs. active h p t d \<longrightarrow> created_at d \<le> created_at c)"
proof -
  let ?ys = "filter (active h p t) cs"
  from assms obtain xs where srt: "sort_key (\<lambda>c. - created_at c) ?ys = c # xs"
    by (auto simp: existingConversation_def single_row_take1 split: list.splits)
  then have "c \<in> set (sort_key (\<lambda>c. - created_at c) ?ys)" by simp
  then have "c \<in> set ?ys" by simp
  moreover have "\<forall>d \<in> set ?ys. created_at d \<le> created_at c"
    using newest_first [OF srt] by blast
  ultimately show ?thesis by auto
qed

lemma existingConversation_None:
  "existingConversation cs h p t = None \<longleftrightarrow> (\<forall>d \<in> set cs. \<not> active h p t d)"
proof -
  let ?ys = "filter (active h p t) cs"
  have "existingConversation cs h p t = None \<longleftrightarrow> sort_key (\<lambda>c. - created_at c) ?ys = []"
    by (auto simp: existingConversation_def single_row_take1 split: list.splits)
  also have "\<dots> \<longleftrightarrow> ?ys = []"
    by (metis length_0_conv length_sort)
  also have "\<dots> \<longleftrightarrow> (\<forall>d \<in> set cs. \<not> active h p t d)"
    by (simp add: filter_empty_conv)
  finally show ?thesis .
qed

lemma afterReply_conversations:
  "conversations (snd (afterReply cfg e m hid hw pp c ut ai w)) =
     (if send_completes cfg e m
      then update_eq_id (c_id c) (finalUpdate c ai (finalTranscript ut ai (t_outbound e)))
             (conversations w)
      else conversations w)"
  by (auto simp: afterReply_def sendWhatsAppMessageViaTwilio_def send_completes_def Let_def
      split: sum.splits option.splits)

lemma afterReply_hospitals:
  "hospitals (snd (afterReply cfg e m hid hw pp c ut ai w)) = hospitals w"
  by (auto simp: afterReply_def sendWhatsAppMessageViaTwilio_def Let_def
      split: sum.splits option.splits)

lemma afterReply_outbox:
  "outbox (snd (afterReply cfg e m hid hw pp c ut ai w)) =
     outbox w
     @ (if isBaileysBot m \<or> unset (TWILIO_ACCOUNT_SID cfg) \<or> unset (TWILIO_AUTH_TOKEN cfg)
        then [] else [TwilioMessage (''whatsapp:+'' @ hw) (''whatsapp:+'' @ pp) (ai_response ai)])
     @ (if send_completes cfg e m \<and> truthy (shouldCreateAppointment c ai)
        then [CreateAppointment
                (appointmentBody c hid pp ai (finalTranscript ut ai (t_outbound e)))]
        else [])"
  by (auto simp: afterReply_def sendWhatsAppMessageViaTwilio_def send_completes_def Let_def
      split: sum.splits option.splits)

lemma withConversation_conversations:
  "conversations (snd (withConversation cfg e m hid hn hw pp c w)) =
     (case ai_outcome e of
        Inl err \<Rightarrow>
          update_eq_id (c_id c) (firstUpdate (updatedTranscript c m (t_inbound e)) (t_persist e))
            (conversations w)
      | Inr ai \<Rightarrow>
          (if send_completes cfg e m
           then update_eq_id (c_id c)
                  (finalUpdate c ai
                     (finalTranscript (updatedTranscript c m (t_inbound e)) ai (t_outbound e)))
                  (update_eq_id (c_id c)
                     (firstUpdate (updatedTranscript c m (t_inbound e)) (t_persist e))
                     (conversations w))
           else update_eq_id (c_id c)
                  (firstUpdate (updatedTranscript c m (t_inbound e)) (t_persist e))
                  (conversations w)))"
  by (simp add: withConversation_def Let_def afterReply_conversations split: sum.splits)

lemma findOrCreate_conversations:
  "conversations (snd (findOrCreate e h p w)) =
     conversations w
     @ (case existingConversation (conversations w) h p (t_lookup e - 2 * 60 * 60 * 1000) of
          Some c \<Rightarrow> []
        | None \<Rightarrow> (case insert_outcome e of Inl err \<Rightarrow> [] | Inr a \<Rightarrow> [newConversation a h p]))"
  by (simp add: findOrCreate_def Let_def split: option.splits sum.splits)

lemma appointment_created_update:
  assumes "\<And>r. appointment_created (f r) = appointment_created r"
  shows "map appointment_created (update_eq_id cid f cs) = map appointment_created cs"
  using assms by (simp add: update_eq_id_def)

lemma appointment_created_firstUpdate:
  "appointment_created (firstUpdate ut now r) = appointment_created r"
  by (simp add: firstUpdate_def)

lemma appointment_created_finalUpdate:
  "appointment_created (finalUpdate c ai ft r) = appointment_created r"
  by (simp add: finalUpdate_def)

lemma withConversation_flags:
  "map appointment_created (conversations (snd (withConversation cfg e m hid hn hw pp c w))) =
   map appointment_created (conversations w)"
  by (simp add: withConversation_conversations appointment_created_update
      appointment_created_firstUpdate appointment_created_finalUpdate split: sum.splits)

lemma findOrCreate_flags:
  assumes "findOrCreate e h p w = (res, w1)"
  shows "\<exists>new. map appointment_created (conversations w1) =
               map appointment_created (conversations w) @ new
             \<and> (\<forall>v \<in> set new. \<exists>a. insert_outcome e = Inr a \<and> v = appointment_created a)"
proof -
  have "conversations w1 = conversations (snd (findOrCreate e h p w))"
    using assms by simp
  then show ?thesis
    by (auto simp: findOrCreate_conversations newConversation_def
        split: option.splits sum.splits)
qed

lemma routed_flags:
  "\<exists>new. map appointment_created (conversations (snd (routed cfg e m w))) =
           map appointment_created (conversations w) @ new
         \<and> (\<forall>v \<in> set new. \<exists>a. insert_outcome e = Inr a \<and> v = appointment_created a)"
proof (cases "resolveHospital (hospitals w) (stripAddress (msg_to m))")
  case (Pair hospitalId hospitalName)
  show ?thesis
  proof (cases "hospitalId = None \<or> hospitalId = Some []")
    case True
    with Pair show ?thesis by (auto simp: routed_def Let_def)
  next
    case False
    then obtain hid where hid: "hospitalId = Some hid" "hid \<noteq> []" by auto
    obtain res w1 where foc: "findOrCreate e hid (stripAddress (msg_from m)) w = (res, w1)"
      by (cases "findOrCreate e hid (stripAddress (msg_from m)) w")
    from findOrCreate_flags [OF foc] obtain new where new:
      "map appointment_created (conversations w1) =
         map appointment_created (conversations w) @ new"
      "\<forall>v \<in> set new. \<exists>a. insert_outcome e = Inr a \<and> v = appointment_created a"
      by blast
    have "map appointment_created (conversations (snd (routed cfg e m w))) =
          map appointment_created (conversations w1)"
      using Pair hid foc
      by (cases res) (simp_all add: routed_def Let_def withConversation_flags)
    with new show ?thesis by auto
  qed
qed

lemma serve_flags:
  "\<exists>new. map appointment_created (conversations (snd (serve cfg e req w))) =
           map appointment_created (conversations w) @ new
         \<and> (\<forall>v \<in> set new. \<exists>a. insert_outcome e = Inr a \<and> v = appointment_created a)"
proof (cases "http_method req = ''OPTIONS''")
  case True
  then show ?thesis by (simp add: serve_def)
next
  case False
  show ?thesis
  proof (cases "decode e req")
    case (Inl err)
    with False show ?thesis by (simp add: serve_def)
  next
    case (Inr m)
    have "conversations (snd (serve cfg e req w)) = conversations (snd (routed cfg e m w))"
      using False Inr by (simp add: serve_def split: prod.splits sum.splits)
    with routed_flags [of cfg e m w] show ?thesis by simp
  qed
qed

lemma active_iff:
  "active h p t r \<longleftrightarrow>
     hospital_id r = h \<and> patient_phone r = p
     \<and> (\<exists>s. conversation_state r = JStr s \<and> s \<noteq> ''completed'')
     \<and> (\<exists>x. last_message_at r = Some x \<and> t \<le> x)"
  by (auto simp: active_def sql_neq_def sql_gte_def split: jsval.splits option.splits)

text \<open>The session the handler works on is a row of the table: the one found, or the one inserted.\<close>

lemma findOrCreate_stored:
  assumes "findOrCreate e h p w = (Inr c, w1)"
  shows "\<exists>i < length (conversations w1). conversations w1 ! i = c"
proof (cases "existingConversation (conversations w) h p (t_lookup e - 2 * 60 * 60 * 1000)")
  case (Some d)
  with assms have "d = c" "w1 = w" by (simp_all add: findOrCreate_def)
  moreover from existingConversation_Some [OF Some] have "d \<in> set (conversations w)" by simp
  ultimately show ?thesis by (simp add: in_set_conv_nth)
next
  case None
  with assms obtain a where "c = newConversation a h p"
    and "conversations w1 = conversations w @ [c]"
    by (auto simp: findOrCreate_def Let_def split: sum.splits)
  then have "conversations w1 ! length (conversations w) = c" by simp
  moreover have "length (conversations w) < length (conversations w1)"
    using \<open>conversations w1 = conversations w @ [c]\<close> by simp
  ultimately show ?thesis by blast
qed

lemma findOrCreate_frame:
  assumes "findOrCreate e h p w = (res, w1)"
  shows "hospitals w1 = hospitals w \<and> outbox w1 = outbox w"
  using assms by (auto simp: findOrCreate_def Let_def split: option.splits sum.splits)

lemma withConversation_result_Inr:
  assumes "fst (withConversation cfg e m hid hn hw pp c w) = Inr resp"
  shows "\<exists>ai. ai_outcome e = Inr ai \<and> send_completes cfg e m"
  using assms
  by (auto simp: withConversation_def afterReply_def sendWhatsAppMessageViaTwilio_def
      send_completes_def Let_def split: sum.splits option.splits if_splits prod.splits)

lemma routed_conversations:
  "conversations (snd (routed cfg e m w)) =
     (case resolveHospital (hospitals w) (stripAddress (msg_to m)) of
        (None, hn) \<Rightarrow> conversations w
      | (Some hid, hn) \<Rightarrow>
          if hid = [] then conversations w
          else (case findOrCreate e hid (stripAddress (msg_from m)) w of
                  (Inl err, w1) \<Rightarrow> conversations w1
                | (Inr c, w1) \<Rightarrow>
                    conversations (snd (withConversation cfg e m hid hn
                      (stripAddress (msg_to m)) (stripAddress (msg_from m)) c w1))))"
  by (simp add: routed_def Let_def split: prod.splits option.splits sum.splits)

lemma serve_conversations:
  "conversations (snd (serve cfg e req w)) =
     (if http_method req = ''OPTIONS'' then conversations w
      else (case decode e req of
              Inl err \<Rightarrow> conversations w
            | Inr m \<Rightarrow> conversations (snd (routed cfg e m w))))"
  by (simp add: serve_def split: prod.splits sum.splits)

lemma decode_channel:
  assumes "decode e req = Inr m"
  shows "isBaileysBot m = includes_str (contentType req) ''application/json''"
  using assms by (auto simp: decode_def split: sum.splits if_splits)

subsection \<open>The preferred slot never reaches the table\<close>

lemma finalUpdate_ignores_slot:
  "finalUpdate c (ai\<lparr>ai_preferredDate := d, ai_preferredTime := t\<rparr>) ft = finalUpdate c ai ft"
  by (rule ext) (simp add: finalUpdate_def merged_defs)

lemma finalTranscript_ignores_slot:
  "finalTranscript ut (ai\<lparr>ai_preferredDate := d, ai_preferredTime := t\<rparr>) now =
   finalTranscript ut ai now"
  by (simp add: finalTranscript_def)

lemma withConversation_ignores_slot:
  "conversations (snd (withConversation cfg
       (e\<lparr>ai_outcome := Inr (ai\<lparr>ai_preferredDate := d, ai_preferredTime := t\<rparr>)\<rparr>)
       m hid hn hw pp c w)) =
   conversations (snd (withConversation cfg (e\<lparr>ai_outcome := Inr ai\<rparr>) m hid hn hw pp c w))"
  by (simp add: withConversation_conversations finalUpdate_ignores_slot
      finalTranscript_ignores_slot send_completes_def)

lemma findOrCreate_ignores_reply:
  "findOrCreate (e\<lparr>ai_outcome := x\<rparr>) h p w = findOrCreate (e\<lparr>ai_outcome := y\<rparr>) h p w"
  by (simp add: findOrCreate_def split: option.splits sum.splits)

lemma decode_ignores_reply:
  "decode (e\<lparr>ai_outcome := x\<rparr>) req = decode (e\<lparr>ai_outcome := y\<rparr>) req"
  by (simp add: decode_def split: sum.splits)

lemma routed_ignores_slot:
  "conversations (snd (routed cfg
       (e\<lparr>ai_outcome := Inr (ai\<lparr>ai_preferredDate := d, ai_preferredTime := t\<rparr>)\<rparr>) m w)) =
   conversations (snd (routed cfg (e\<lparr>ai_outcome := Inr ai\<rparr>) m w))"
  unfolding routed_conversations withConversation_ignores_slot
    findOrCreate_ignores_reply
      [where x = "Inr (ai\<lparr>ai_preferredDate := d, ai_preferredTime := t\<rparr>)" and y = "Inr ai"]
  by (rule refl)

lemma serve_ignores_slot:
  "conversations (snd (serve cfg
       (e\<lparr>ai_outcome := Inr (ai\<lparr>ai_preferredDate := d, ai_preferredTime := t\<rparr>)\<rparr>) req w)) =
   conversations (snd (serve cfg (e\<lparr>ai_outcome := Inr ai\<rparr>) req w))"
  unfolding serve_conversations routed_ignores_slot
    decode_ignores_reply
      [where x = "Inr (ai\<lparr>ai_preferredDate := d, ai_preferredTime := t\<rparr>)" and y = "Inr ai"]
  by (rule refl)

subsection \<open>A request whose Twilio send is skipped\<close>

lemma send_skipped:
  assumes "unset (TWILIO_ACCOUNT_SID cfg) \<or> unset (TWILIO_AUTH_TOKEN cfg)"
  shows "sendWhatsAppMessageViaTwilio cfg e f t text w = (Inr JNull, w)"
  using assms by (auto simp: sendWhatsAppMessageViaTwilio_def)

lemma afterReply_unsent:
  assumes "\<not> isBaileysBot m"
      and "unset (TWILIO_ACCOUNT_SID cfg) \<or> unset (TWILIO_AUTH_TOKEN cfg)"
  shows "apart_from_twilio (afterReply cfg e m hid hw pp c ut ai w)
           (afterReply cfg' (e\<lparr>twilio_outcome := Inr sent\<rparr>) m hid hw pp c ut ai w)"
  using assms
  by (auto simp: apart_from_twilio_def afterReply_def sendWhatsAppMessageViaTwilio_def Let_def
      split: option.splits)

lemma afterReply_unsent_outbox:
  assumes "\<not> isBaileysBot m"
      and "unset (TWILIO_ACCOUNT_SID cfg) \<or> unset (TWILIO_AUTH_TOKEN cfg)"
  shows "filter is_twilio (outbox (snd (afterReply cfg e m hid hw pp c ut ai w)))
         = filter is_twilio (outbox w)"
  using assms by (auto simp: afterReply_outbox)

lemma withConversation_unsent:
  assumes "\<not> isBaileysBot m"
      and "unset (TWILIO_ACCOUNT_SID cfg) \<or> unset (TWILIO_AUTH_TOKEN cfg)"
  shows "apart_from_twilio (withConversation cfg e m hid hn hw pp c w)
           (withConversation cfg' (e\<lparr>twilio_outcome := Inr sent\<rparr>) m hid hn hw pp c w)"
proof (cases "ai_outcome e")
  case (Inl err)
  then show ?thesis by (simp add: withConversation_def Let_def apart_from_twilio_def)
next
  case (Inr ai)
  then show ?thesis
    using afterReply_unsent [OF assms, of e hid hw pp c _ ai _ cfg' sent]
    by (simp add: withConversation_def Let_def)
qed

lemma withConversation_unsent_outbox:
  assumes "\<not> isBaileysBot m"
      and "unset (TWILIO_ACCOUNT_SID cfg) \<or> unset (TWILIO_AUTH_TOKEN cfg)"
  shows "filter is_twilio (outbox (snd (withConversation cfg e m hid hn hw pp c w)))
         = filter is_twilio (outbox w)"
  using assms
  by (cases "ai_outcome e")
     (simp_all add: withConversation_def Let_def afterReply_unsent_outbox)

lemma findOrCreate_ignores_twilio:
  "findOrCreate (e\<lparr>twilio_outcome := x\<rparr>) h p w = findOrCreate e h p w"
  by (simp add: findOrCreate_def split: option.splits sum.splits)

lemma decode_ignores_twilio:
  "decode (e\<lparr>twilio_outcome := x\<rparr>) req = decode e req"
  by (simp add: decode_def split: sum.splits)

lemma routed_unsent:
  assumes "\<not> isBaileysBot m"
      and "unset (TWILIO_ACCOUNT_SID cfg) \<or> unset (TWILIO_AUTH_TOKEN cfg)"
  shows "apart_from_twilio (routed cfg e m w) (routed cfg' (e\<lparr>twilio_outcome := Inr sent\<rparr>) m w)
         \<and> filter is_twilio (outbox (snd (routed cfg e m w))) = filter is_twilio (outbox w)"
proof (cases "resolveHospital (hospitals w) (stripAddress (msg_to m))")
  case (Pair hospitalId hospitalName)
  show ?thesis
  proof (cases "hospitalId = None \<or> hospitalId = Some []")
    case True
    with Pair show ?thesis by (auto simp: routed_def Let_def apart_from_twilio_def)
  next
    case False
    then obtain hid where hid: "hospitalId = Some hid" "hid \<noteq> []" by auto
    obtain res w1 where foc: "findOrCreate e hid (stripAddress (msg_from m)) w = (res, w1)"
      by (cases "findOrCreate e hid (stripAddress (msg_from m)) w")
    show ?thesis
    proof (cases res)
      case (Inl err)
      with Pair hid foc findOrCreate_frame [OF foc] show ?thesis
        by (simp add: routed_def Let_def apart_from_twilio_def findOrCreate_ignores_twilio)
    next
      case (Inr c)
      with Pair hid foc findOrCreate_frame [OF foc]
        withConversation_unsent [OF assms, of e hid hospitalName "stripAddress (msg_to m)"
          "stripAddress (msg_from m)" c w1 cfg' sent]
        withConversation_unsent_outbox [OF assms, of e hid hospitalName "stripAddress (msg_to m)"
          "stripAddress (msg_from m)" c w1]
      show ?thesis
        by (simp add: routed_def Let_def findOrCreate_ignores_twilio)
    qed
  qed
qed

lemma serve_unsent:
  assumes "\<not> includes_str (contentType req) ''application/json''"
      and "unset (TWILIO_ACCOUNT_SID cfg) \<or> unset (TWILIO_AUTH_TOKEN cfg)"
  shows "apart_from_twilio (serve cfg e req w) (serve cfg' (e\<lparr>twilio_outcome := Inr sent\<rparr>) req w)
         \<and> filter is_twilio (outbox (snd (serve cfg e req w))) = filter is_twilio (outbox w)"
proof (cases "http_method req = ''OPTIONS''")
  case True
  then show ?thesis by (simp add: serve_def apart_from_twilio_def)
next
  case False
  show ?thesis
  proof (cases "decode e req")
    case (Inl err)
    with False show ?thesis
      by (simp add: serve_def apart_from_twilio_def decode_ignores_twilio)
  next
    case (Inr m)
    with assms(1) have twilio: "\<not> isBaileysBot m" by (simp add: decode_channel)
    from routed_unsent [OF twilio assms(2), of e w cfg' sent] False Inr show ?thesis
      by (auto simp: serve_def apart_from_twilio_def decode_ignores_twilio
          split: prod.splits sum.splits)
  qed
qed

subsection \<open>Stored transcripts only grow\<close>

lemma findOrCreate_cases:
  assumes "findOrCreate e h p w = (res, w1)"
  shows "(\<exists>c. res = Inr c \<and> w1 = w \<and> c \<in> set (conversations w))
         \<or> (\<exists>err. res = Inl err \<and> w1 = w)
         \<or> (\<exists>a. insert_outcome e = Inr a \<and> res = Inr (newConversation a h p)
                \<and> conversations w1 = conversations w @ [newConversation a h p])"
proof (cases "existingConversation (conversations w) h p (t_lookup e - 2 * 60 * 60 * 1000)")
  case (Some d)
  with assms have "res = Inr d" "w1 = w" by (simp_all add: findOrCreate_def)
  moreover from existingConversation_Some [OF Some] have "d \<in> set (conversations w)" by simp
  ultimately show ?thesis by blast
next
  case None
  show ?thesis
  proof (cases "insert_outcome e")
    case (Inl err)
    with None assms have "res = Inl err" "w1 = w" by (simp_all add: findOrCreate_def)
    then show ?thesis by blast
  next
    case (Inr a)
    with None assms have "res = Inr (newConversation a h p)"
      and "conversations w1 = conversations w @ [newConversation a h p]"
      by (auto simp: findOrCreate_def Let_def)
    with Inr show ?thesis by blast
  qed
qed

lemma withConversation_length:
  "length (conversations (snd (withConversation cfg e m hid hn hw pp c w)))
     = length (conversations w)"
  by (simp add: withConversation_conversations length_update_eq_id split: sum.splits)

lemma withConversation_session_row:
  assumes "i < length (conversations w)" and "conversations w ! i = c"
  shows "transcript (conversations (snd (withConversation cfg e m hid hn hw pp c w)) ! i) =
           Some (transcript_or_empty c
             @ \<lparr>role = ''patient'', content = JStr (body m), timestamp = t_inbound e,
                 turn_messageSid = Some (messageSid m)\<rparr>
             # (case ai_outcome e of
                  Inl err \<Rightarrow> []
                | Inr ai \<Rightarrow>
                    if send_completes cfg e m
                    then [\<lparr>role = ''assistant'', content = ai_response ai,
                           timestamp = t_outbound e, turn_messageSid = None\<rparr>]
                    else []))"
  using assms
  by (simp add: withConversation_conversations nth_update_eq_id length_update_eq_id
      firstUpdate_def finalUpdate_def finalTranscript_def updatedTranscript_def
      split: sum.splits)

lemma withConversation_other_row:
  assumes "j < length (conversations w)" and "c_id (conversations w ! j) \<noteq> c_id c"
  shows "conversations (snd (withConversation cfg e m hid hn hw pp c w)) ! j = conversations w ! j"
  using assms
  by (simp add: withConversation_conversations nth_update_eq_id length_update_eq_id
      firstUpdate_def finalUpdate_def split: sum.splits)

lemma same_id_same_row:
  assumes "distinct (map c_id cs)" and "c \<in> set cs" and "j < length cs"
      and "c_id (cs ! j) = c_id c"
  shows "cs ! j = c"
proof -
  from assms(1) have "inj_on c_id (set cs)" by (simp add: distinct_map)
  moreover from assms(3) have "cs ! j \<in> set cs" by simp
  ultimately show ?thesis using assms(2,4) by (auto dest: inj_onD)
qed

lemma routed_transcripts_grow:
  assumes "distinct (map c_id (conversations w))"
      and "\<forall>a. insert_outcome e = Inr a \<longrightarrow> c_id a \<notin> c_id ` set (conversations w)"
      and "j < length (conversations w)"
  shows "\<exists>added. transcript_or_empty (conversations (snd (routed cfg e m w)) ! j)
                  = transcript_or_empty (conversations w ! j) @ added"
proof (cases "resolveHospital (hospitals w) (stripAddress (msg_to m))")
  case (Pair hospitalId hospitalName)
  show ?thesis
  proof (cases "hospitalId = None \<or> hospitalId = Some []")
    case True
    with Pair have "conversations (snd (routed cfg e m w)) = conversations w"
      by (auto simp: routed_def Let_def)
    then show ?thesis by simp
  next
    case False
    then obtain hid where hid: "hospitalId = Some hid" "hid \<noteq> []" by auto
    obtain res w1 where foc: "findOrCreate e hid (stripAddress (msg_from m)) w = (res, w1)"
      by (cases "findOrCreate e hid (stripAddress (msg_from m)) w")
    let ?hw = "stripAddress (msg_to m)" and ?pp = "stripAddress (msg_from m)"
    from findOrCreate_cases [OF foc] consider
        (found) c where "res = Inr c" "w1 = w" "c \<in> set (conversations w)"
      | (failed) err where "res = Inl err" "w1 = w"
      | (created) a where "insert_outcome e = Inr a" "res = Inr (newConversation a hid ?pp)"
          "conversations w1 = conversations w @ [newConversation a hid ?pp]"
      by blast
    then show ?thesis
    proof cases
      case found
      have run: "conversations (snd (routed cfg e m w))
                 = conversations (snd (withConversation cfg e m hid hospitalName ?hw ?pp c w))"
        using Pair hid foc found by (simp add: routed_def Let_def)
      show ?thesis
      proof (cases "c_id (conversations w ! j) = c_id c")
        case True
        with assms(1,3) found(3) have "conversations w ! j = c"
          by (simp add: same_id_same_row)
        with withConversation_session_row [OF assms(3) this, of cfg e m hid hospitalName ?hw ?pp]
        show ?thesis by (simp add: run transcript_or_empty_def)
      next
        case False
        with withConversation_other_row [OF assms(3) False, of cfg e m hid hospitalName ?hw ?pp]
        show ?thesis by (simp add: run)
      qed
    next
      case failed
      with Pair hid foc have "conversations (snd (routed cfg e m w)) = conversations w"
        by (simp add: routed_def Let_def)
      then show ?thesis by simp
    next
      case created
      let ?n = "newConversation a hid ?pp"
      have run: "conversations (snd (routed cfg e m w))
                 = conversations (snd (withConversation cfg e m hid hospitalName ?hw ?pp ?n w1))"
        using Pair hid foc created by (simp add: routed_def Let_def)
      have j1: "j < length (conversations w1)" using assms(3) created(3) by simp
      have same: "conversations w1 ! j = conversations w ! j"
        using assms(3) created(3) by (simp add: nth_append)
      have "c_id ?n = c_id a" by (simp add: newConversation_def)
      moreover have "c_id (conversations w ! j) \<in> c_id ` set (conversations w)"
        using assms(3) by simp
      ultimately have "c_id (conversations w1 ! j) \<noteq> c_id ?n"
        using assms(2) created(1) same by metis
      from withConversation_other_row [OF j1 this, of cfg e m hid hospitalName ?hw ?pp]
      show ?thesis by (simp add: run same)
    qed
  qed
qed

lemma serve_transcripts_grow:
  assumes "distinct (map c_id (conversations w))"
      and "\<forall>a. insert_outcome e = Inr a \<longrightarrow> c_id a \<notin> c_id ` set (conversations w)"
      and "j < length (conversations w)"
  shows "\<exists>added. transcript_or_empty (conversations (snd (serve cfg e req w)) ! j)
                  = transcript_or_empty (conversations w ! j) @ added"
proof (cases "http_method req = ''OPTIONS'' \<or> isl (decode e req)")
  case True
  then have "conversations (snd (serve cfg e req w)) = conversations w"
    by (auto simp: serve_conversations split: sum.splits)
  then show ?thesis by simp
next
  case False
  then obtain m where "decode e req = Inr m" by (cases "decode e req") auto
  with False have "conversations (snd (serve cfg e req w)) = conversations (snd (routed cfg e m w))"
    by (simp add: serve_conversations)
  with routed_transcripts_grow [OF assms, of cfg m] show ?thesis by simp
qed

section \<open>State merge\<close>

text \<open>
  C1 (as the code has it). The six merged columns are written by the second update.
  Each takes the AI service's value when that value is truthy, and the value of the
  session read at the start of the request otherwise. So an absent value (undefined or
  null) always keeps the prior value, and so does a value that is present but falsy:
  \<^verbatim>\<open>false\<close>, \<^verbatim>\<open>0\<close> or the empty string.
\<close>

theorem C1_merge_truthy:
  "conversation_state (finalUpdate conversation aiResult finalT row) =
     (if truthy (ai_newState aiResult) then ai_newState aiResult
      else conversation_state conversation)
   \<and> collected_symptoms (finalUpdate conversation aiResult finalT row) =
     (if truthy (ai_symptoms aiResult) then ai_symptoms aiResult
      else collected_symptoms conversation)
   \<and> triage_level (finalUpdate conversation aiResult finalT row) =
     (if truthy (ai_triageLevel aiResult) then ai_triageLevel aiResult
      else triage_level conversation)
   \<and> urgency_score (finalUpdate conversation aiResult finalT row) =
     (if truthy (ai_urgencyScore aiResult) then ai_urgencyScore aiResult
      else urgency_score conversation)
   \<and> first_aid_given (finalUpdate conversation aiResult finalT row) =
     (if truthy (ai_firstAid aiResult) then ai_firstAid aiResult
      else first_aid_given conversation)
   \<and> patient_name (finalUpdate conversation aiResult finalT row) =
     (if truthy (ai_patientName aiResult) then ai_patientName aiResult
      else patient_name conversation)"
  by (simp add: finalUpdate_def merged_defs js_or_def)

text \<open>A name that is present wins; an urgency score that is absent keeps the stored 5.\<close>

theorem C1_merge_truthy_witness:
  "patient_name
     (finalUpdate returning_row ((reply_only (JStr ''ok''))\<lparr>ai_patientName := JStr ''Ada''\<rparr>) []
        returning_row) = JStr ''Ada''
   \<and> urgency_score
       (finalUpdate returning_row ((reply_only (JStr ''ok''))\<lparr>ai_patientName := JStr ''Ada''\<rparr>) []
          returning_row) = JNum 5"
  using C1_merge_truthy [of returning_row
      "(reply_only (JStr ''ok''))\<lparr>ai_patientName := JStr ''Ada''\<rparr>" "[]" returning_row]
  by (simp add: reply_only_def returning_row_def assigned_row_def)

text \<open>
  C1 as stated fails: the reply carries the urgency score 0, which is present, and the
  session keeps its stored score 5.
\<close>

theorem C1_present_zero_loses:
  "ai_urgencyScore ((reply_only (JStr ''ok''))\<lparr>ai_urgencyScore := JNum 0\<rparr>) = JNum 0
   \<and> urgency_score
        (finalUpdate returning_row ((reply_only (JStr ''ok''))\<lparr>ai_urgencyScore := JNum 0\<rparr>) []
           returning_row) = JNum 5"
  by (simp add: finalUpdate_def merged_defs js_or_def reply_only_def returning_row_def
        assigned_row_def)

section \<open>Appointment decision\<close>

text \<open>
  C2 (as the code has it). When the merged triage level is \<^verbatim>\<open>'CRITICAL'\<close> and the AI
  service's \<^verbatim>\<open>createAppointment\<close> is not exactly \<^verbatim>\<open>true\<close>, the decision is falsy and the
  rest of the request adds no appointment call to the outgoing calls, whatever the other
  fields hold.
\<close>

theorem C2_critical_without_request:
  assumes "triageLevel aiResult conversation = JStr ''CRITICAL''"
      and "ai_createAppointment aiResult \<noteq> JBool True"
  shows "\<not> truthy (shouldCreateAppointment conversation aiResult)
         \<and> (\<forall>a. CreateAppointment a
                  \<in> set (outbox (snd (afterReply cfg e m hospitalId hospitalWhatsApp
                                        patientPhone conversation updatedT aiResult w)))
               \<longrightarrow> CreateAppointment a \<in> set (outbox w))"
proof -
  have quiet: "\<not> truthy (shouldCreateAppointment conversation aiResult)"
    using assms by (simp add: shouldCreateAppointment_def js_and_def js_or_def js_not_def)
  then show ?thesis by (auto simp: afterReply_outbox)
qed

theorem C2_critical_without_request_witness:
  "triageLevel critical_reply returning_row = JStr ''CRITICAL''
   \<and> ai_createAppointment critical_reply \<noteq> JBool True
   \<and> \<not> truthy (shouldCreateAppointment returning_row critical_reply)"
proof -
  have h1: "triageLevel critical_reply returning_row = JStr ''CRITICAL''"
    by (simp add: triageLevel_def js_or_def critical_reply_def reply_only_def)
  have h2: "ai_createAppointment critical_reply \<noteq> JBool True"
    by (simp add: critical_reply_def reply_only_def)
  show ?thesis using h1 h2 C2_critical_without_request [OF h1 h2] by blast
qed

text \<open>
  C2 as stated fails: with \<^verbatim>\<open>createAppointment: true\<close> the decision is truthy although the
  merged triage level is \<^verbatim>\<open>'CRITICAL'\<close>.
\<close>

theorem C2_critical_requested_fires:
  "triageLevel (critical_reply\<lparr>ai_createAppointment := JBool True\<rparr>) returning_row
     = JStr ''CRITICAL''
   \<and> truthy (shouldCreateAppointment returning_row
        (critical_reply\<lparr>ai_createAppointment := JBool True\<rparr>))"
  by (simp add: shouldCreateAppointment_def js_and_def js_or_def js_not_def merged_defs
        critical_reply_def reply_only_def returning_row_def assigned_row_def)

section \<open>Session resolution\<close>

text \<open>
  C3. A row is eligible when it belongs to the hospital and the patient, its state is a
  string other than \<^verbatim>\<open>'completed'\<close> (a NULL state fails the SQL comparison; the handler
  never writes one) and its \<open>last_message_at\<close> is no more than two hours (7200000 ms)
  before the lookup. If some row is eligible, the handler works on an eligible row
  created no earlier than any other eligible row, and the table is unchanged. If none
  is, whatever older rows exist outside the window, the insert is attempted: its error
  is thrown, or the session is the inserted row, in state \<^verbatim>\<open>'greeting'\<close> with an empty
  transcript, under the id the store assigned, which differs from every stored id
  when the store assigns an unused one.
\<close>

theorem C3_find_or_create:
  "((\<exists>d \<in> set (conversations w). active h p (t_lookup e - 7200000) d) \<longrightarrow>
      (\<exists>c. findOrCreate e h p w = (Inr c, w)
           \<and> c \<in> set (conversations w) \<and> active h p (t_lookup e - 7200000) c
           \<and> (\<forall>d \<in> set (conversations w).
                 active h p (t_lookup e - 7200000) d \<longrightarrow> created_at d \<le> created_at c)))
   \<and> ((\<forall>d \<in> set (conversations w). \<not> active h p (t_lookup e - 7200000) d) \<longrightarrow>
      (case insert_outcome e of
         Inl createError \<Rightarrow> findOrCreate e h p w = (Inl createError, w)
       | Inr a \<Rightarrow>
           findOrCreate e h p w =
             (Inr (newConversation a h p),
              w\<lparr>conversations := conversations w @ [newConversation a h p]\<rparr>)
           \<and> c_id (newConversation a h p) = c_id a
           \<and> conversation_state (newConversation a h p) = JStr ''greeting''
           \<and> transcript (newConversation a h p) = Some []
           \<and> (c_id a \<notin> c_id ` set (conversations w) \<longrightarrow>
                (\<forall>d \<in> set (conversations w). c_id d \<noteq> c_id (newConversation a h p)))))
   \<and> (\<forall>r. active h p (t_lookup e - 7200000) r \<longleftrightarrow>
          hospital_id r = h \<and> patient_phone r = p
          \<and> (\<exists>s. conversation_state r = JStr s \<and> s \<noteq> ''completed'')
          \<and> (\<exists>x. last_message_at r = Some x \<and> t_lookup e - 7200000 \<le> x))"
proof (intro conjI impI)
  assume "\<exists>d \<in> set (conversations w). active h p (t_lookup e - 7200000) d"
  then have "existingConversation (conversations w) h p (t_lookup e - 7200000) \<noteq> None"
    by (simp add: existingConversation_None)
  then obtain c where c: "existingConversation (conversations w) h p (t_lookup e - 7200000) = Some c"
    by blast
  then have "findOrCreate e h p w = (Inr c, w)"
    by (simp add: findOrCreate_def)
  with existingConversation_Some [OF c]
  show "\<exists>c. findOrCreate e h p w = (Inr c, w)
           \<and> c \<in> set (conversations w) \<and> active h p (t_lookup e - 7200000) c
           \<and> (\<forall>d \<in> set (conversations w).
                 active h p (t_lookup e - 7200000) d \<longrightarrow> created_at d \<le> created_at c)"
    by blast
next
  assume "\<forall>d \<in> set (conversations w). \<not> active h p (t_lookup e - 7200000) d"
  then have none: "existingConversation (conversations w) h p (t_lookup e - 7200000) = None"
    by (simp add: existingConversation_None)
  show "case insert_outcome e of
         Inl createError \<Rightarrow> findOrCreate e h p w = (Inl createError, w)
       | Inr a \<Rightarrow>
           findOrCreate e h p w =
             (Inr (newConversation a h p),
              w\<lparr>conversations := conversations w @ [newConversation a h p]\<rparr>)
           \<and> c_id (newConversation a h p) = c_id a
           \<and> conversation_state (newConversation a h p) = JStr ''greeting''
           \<and> transcript (newConversation a h p) = Some []
           \<and> (c_id a \<notin> c_id ` set (conversations w) \<longrightarrow>
                (\<forall>d \<in> set (conversations w). c_id d \<noteq> c_id (newConversation a h p)))"
  proof (cases "insert_outcome e")
    case (Inl createError)
    with none show ?thesis by (simp add: findOrCreate_def)
  next
    case (Inr a)
    have "c_id (newConversation a h p) = c_id a"
      by (simp add: newConversation_def)
    moreover have "conversation_state (newConversation a h p) = JStr ''greeting''"
      and "transcript (newConversation a h p) = Some []"
      by (simp_all add: newConversation_def)
    moreover have "c_id a \<notin> c_id ` set (conversations w) \<longrightarrow>
        (\<forall>d \<in> set (conversations w). c_id d \<noteq> c_id a)"
      by (metis imageI)
    ultimately show ?thesis using none Inr
      by (simp add: findOrCreate_def Let_def)
  qed
next
  show "\<forall>r. active h p (t_lookup e - 7200000) r \<longleftrightarrow>
          hospital_id r = h \<and> patient_phone r = p
          \<and> (\<exists>s. conversation_state r = JStr s \<and> s \<noteq> ''completed'')
          \<and> (\<exists>x. last_message_at r = Some x \<and> t_lookup e - 7200000 \<le> x)"
    by (simp add: active_iff)
qed

text \<open>
  The stored session was last written at 500. A lookup at 7200500, exactly two hours
  later, returns it; a lookup one millisecond later inserts a session under the new id
  although the stored one is not completed. Two whole requests 7200000 ms apart share
  one session, and one millisecond more gives two.
\<close>

theorem C3_find_or_create_witness:
  "findOrCreate (calm_env 7200500 (assigned_row ''c1'' 7200500) fever_reply)
       ''h1'' ''15551234567'' return_visit = (Inr returning_row, return_visit)
   \<and> fst (findOrCreate (calm_env 7200501 (assigned_row ''c1'' 7200501) fever_reply)
       ''h1'' ''15551234567'' return_visit)
     = Inr (newConversation (assigned_row ''c1'' 7200501) ''h1'' ''15551234567'')
   \<and> c_id (newConversation (assigned_row ''c1'' 7200501) ''h1'' ''15551234567'') = ''c1''
   \<and> c_id returning_row = ''c0''
   \<and> map c_id (conversations (snd (serve no_twilio
       (calm_env 7201000 (assigned_row ''c2'' 7201000) (reply_only (JStr ''ok'')))
       (bot_json ''still unwell'')
       (snd (serve no_twilio (calm_env 1000 (assigned_row ''c1'' 1000) (reply_only (JStr ''ok'')))
          (bot_json ''I have a fever'') first_visit))))) = [''c1'']
   \<and> map c_id (conversations (snd (serve no_twilio
       (calm_env 7201001 (assigned_row ''c2'' 7201001) (reply_only (JStr ''ok'')))
       (bot_json ''still unwell'')
       (snd (serve no_twilio (calm_env 1000 (assigned_row ''c1'' 1000) (reply_only (JStr ''ok'')))
          (bot_json ''I have a fever'') first_visit))))) = [''c1'', ''c2'']"
proof -
  have scenario:
    "map c_id (conversations (snd (serve no_twilio
       (calm_env 7201000 (assigned_row ''c2'' 7201000) (reply_only (JStr ''ok'')))
       (bot_json ''still unwell'')
       (snd (serve no_twilio (calm_env 1000 (assigned_row ''c1'' 1000) (reply_only (JStr ''ok'')))
          (bot_json ''I have a fever'') first_visit))))) = [''c1'']
     \<and> map c_id (conversations (snd (serve no_twilio
       (calm_env 7201001 (assigned_row ''c2'' 7201001) (reply_only (JStr ''ok'')))
       (bot_json ''still unwell'')
       (snd (serve no_twilio (calm_env 1000 (assigned_row ''c1'' 1000) (reply_only (JStr ''ok'')))
          (bot_json ''I have a fever'') first_visit))))) = [''c1'', ''c2'']"
    by (simp add: handler_defs sample_defs)
  show ?thesis
    using scenario
      C3_find_or_create [of return_visit "''h1''" "''15551234567''"
        "calm_env 7200500 (assigned_row ''c1'' 7200500) fever_reply"]
      C3_find_or_create [of return_visit "''h1''" "''15551234567''"
        "calm_env 7200501 (assigned_row ''c1'' 7200501) fever_reply"]
    by (simp add: sample_defs)
qed

section \<open>The appointment flag\<close>

text \<open>
  C4. Whatever the request, every row that was in the table keeps its
  \<open>appointment_created\<close> value (rows keep their position), so the flag never goes from
  true to false; a row the request inserts has the value the store assigned, since
  neither the insert nor the two updates name the column, and the appointment call,
  when made, writes nothing.
\<close>

theorem C4_appointment_created_untouched:
  "take (length (conversations w))
     (map appointment_created (conversations (snd (serve cfg e req w)))) =
     map appointment_created (conversations w)
   \<and> (\<forall>r \<in> set (drop (length (conversations w)) (conversations (snd (serve cfg e req w)))).
        \<exists>a. insert_outcome e = Inr a \<and> appointment_created r = appointment_created a)"
proof -
  obtain new where new:
    "map appointment_created (conversations (snd (serve cfg e req w))) =
       map appointment_created (conversations w) @ new"
    "\<forall>v \<in> set new. \<exists>a. insert_outcome e = Inr a \<and> v = appointment_created a"
    using serve_flags by blast
  have "take (length (conversations w))
          (map appointment_created (conversations (snd (serve cfg e req w)))) =
        map appointment_created (conversations w)"
    by (simp add: new(1))
  moreover have "map appointment_created
          (drop (length (conversations w)) (conversations (snd (serve cfg e req w)))) = new"
    by (simp add: drop_map [symmetric] new(1))
  then have "\<forall>r \<in> set (drop (length (conversations w))
                  (conversations (snd (serve cfg e req w)))). appointment_created r \<in> set new"
    by (metis imageI list.set_map)
  ultimately show ?thesis using new(2) by blast
qed

text \<open>
  A request that inserts a session beside a stored one whose flag is true, and whose
  appointment call is made: two rows afterwards, the stored flag still true.
\<close>

theorem C4_appointment_created_untouched_witness:
  "length (conversations (snd (serve no_twilio (calm_env 1000 (assigned_row ''c1'' 1000) fever_reply)
      (twilio_form ''I have a fever'')
      \<lparr>hospitals = [demo_hospital],
        conversations = [returning_row\<lparr>patient_phone := ''1'', appointment_created := JBool True\<rparr>],
        outbox = []\<rparr>))) = 2
   \<and> take 1 (map appointment_created (conversations (snd (serve no_twilio
        (calm_env 1000 (assigned_row ''c1'' 1000) fever_reply)
        (twilio_form ''I have a fever'')
        \<lparr>hospitals = [demo_hospital],
          conversations = [returning_row\<lparr>patient_phone := ''1'', appointment_created := JBool True\<rparr>],
          outbox = []\<rparr>)))) = [JBool True]"
  using C4_appointment_created_untouched
    [of "\<lparr>hospitals = [demo_hospital],
          conversations = [returning_row\<lparr>patient_phone := ''1'', appointment_created := JBool True\<rparr>],
          outbox = []\<rparr>"
        no_twilio "calm_env 1000 (assigned_row ''c1'' 1000) fever_reply"
        "twilio_form ''I have a fever''"]
  by (simp add: handler_defs sample_defs)

section \<open>Transcript\<close>

text \<open>
  C5. Let the session be row \<open>i\<close> of the table. The inbound append is the stored
  transcript followed by the one patient turn; the outbound append is that followed by
  the one assistant turn. After the request row \<open>i\<close> holds the stored transcript followed
  by the patient turn, and by the assistant turn as well once the AI service has replied
  and the send has not thrown; a request that answers normally leaves it exactly two
  turns longer. The table keeps its length and rows with another id are untouched.
  Over a whole request, when the stored ids are distinct and the store assigns an
  unused id, every stored row ends with its transcript followed by what was added.
\<close>

theorem C5_transcript_append_only:
  assumes "i < length (conversations w)" and "conversations w ! i = conversation"
  shows "updatedTranscript conversation m (t_inbound e) =
           transcript_or_empty (conversations w ! i)
           @ [\<lparr>role = ''patient'', content = JStr (body m), timestamp = t_inbound e,
                turn_messageSid = Some (messageSid m)\<rparr>]
         \<and> finalTranscript (updatedTranscript conversation m (t_inbound e)) aiResult (t_outbound e) =
           updatedTranscript conversation m (t_inbound e)
           @ [\<lparr>role = ''assistant'', content = ai_response aiResult, timestamp = t_outbound e,
                turn_messageSid = None\<rparr>]
         \<and> length (conversations (snd (withConversation cfg e m hospitalId hospitalName
              hospitalWhatsApp patientPhone conversation w))) = length (conversations w)
         \<and> transcript (conversations (snd (withConversation cfg e m hospitalId hospitalName
              hospitalWhatsApp patientPhone conversation w)) ! i) =
           Some (transcript_or_empty (conversations w ! i)
             @ \<lparr>role = ''patient'', content = JStr (body m), timestamp = t_inbound e,
                 turn_messageSid = Some (messageSid m)\<rparr>
             # (case ai_outcome e of
                  Inl err \<Rightarrow> []
                | Inr ai \<Rightarrow>
                    if send_completes cfg e m
                    then [\<lparr>role = ''assistant'', content = ai_response ai,
                           timestamp = t_outbound e, turn_messageSid = None\<rparr>]
                    else []))
         \<and> (\<forall>resp. fst (withConversation cfg e m hospitalId hospitalName
              hospitalWhatsApp patientPhone conversation w) = Inr resp \<longrightarrow>
             length (transcript_or_empty (conversations (snd (withConversation cfg e m hospitalId
               hospitalName hospitalWhatsApp patientPhone conversation w)) ! i)) =
             length (transcript_or_empty (conversations w ! i)) + 2)
         \<and> (\<forall>j < length (conversations w).
               c_id (conversations w ! j) \<noteq> c_id conversation \<longrightarrow>
               conversations (snd (withConversation cfg e m hospitalId hospitalName
                 hospitalWhatsApp patientPhone conversation w)) ! j = conversations w ! j)
         \<and> (distinct (map c_id (conversations w0))
              \<and> (\<forall>a. insert_outcome e = Inr a \<longrightarrow> c_id a \<notin> c_id ` set (conversations w0))
            \<longrightarrow> (\<forall>j < length (conversations w0).
                  \<exists>added. transcript_or_empty (conversations (snd (serve cfg e req w0)) ! j)
                          = transcript_or_empty (conversations w0 ! j) @ added))"
proof -
  let ?w' = "snd (withConversation cfg e m hospitalId hospitalName hospitalWhatsApp patientPhone
               conversation w)"
  let ?t1 = "\<lparr>role = ''patient'', content = JStr (body m), timestamp = t_inbound e,
               turn_messageSid = Some (messageSid m)\<rparr>"
  have a1: "updatedTranscript conversation m (t_inbound e) =
              transcript_or_empty (conversations w ! i) @ [?t1]"
    using assms by (simp add: updatedTranscript_def)
  have a2: "finalTranscript (updatedTranscript conversation m (t_inbound e)) aiResult (t_outbound e) =
           updatedTranscript conversation m (t_inbound e)
           @ [\<lparr>role = ''assistant'', content = ai_response aiResult, timestamp = t_outbound e,
                turn_messageSid = None\<rparr>]"
    by (simp add: finalTranscript_def)
  have a3: "length (conversations ?w') = length (conversations w)"
    by (rule withConversation_length)
  have a4: "transcript (conversations ?w' ! i) =
           Some (transcript_or_empty (conversations w ! i) @ ?t1
             # (case ai_outcome e of
                  Inl err \<Rightarrow> []
                | Inr ai \<Rightarrow>
                    if send_completes cfg e m
                    then [\<lparr>role = ''assistant'', content = ai_response ai,
                           timestamp = t_outbound e, turn_messageSid = None\<rparr>]
                    else []))"
    using withConversation_session_row [OF assms] assms(2) by simp
  have a5: "\<forall>resp. fst (withConversation cfg e m hospitalId hospitalName
              hospitalWhatsApp patientPhone conversation w) = Inr resp \<longrightarrow>
             length (transcript_or_empty (conversations ?w' ! i)) =
             length (transcript_or_empty (conversations w ! i)) + 2"
  proof (intro allI impI)
    fix resp
    assume "fst (withConversation cfg e m hospitalId hospitalName
              hospitalWhatsApp patientPhone conversation w) = Inr resp"
    from withConversation_result_Inr [OF this] obtain ai
      where "ai_outcome e = Inr ai" "send_completes cfg e m" by blast
    with a4 show "length (transcript_or_empty (conversations ?w' ! i)) =
             length (transcript_or_empty (conversations w ! i)) + 2"
      by (simp add: transcript_or_empty_def)
  qed
  have a6: "\<forall>j < length (conversations w).
               c_id (conversations w ! j) \<noteq> c_id conversation \<longrightarrow>
               conversations ?w' ! j = conversations w ! j"
    by (simp add: withConversation_other_row)
  have a7: "distinct (map c_id (conversations w0))
              \<and> (\<forall>a. insert_outcome e = Inr a \<longrightarrow> c_id a \<notin> c_id ` set (conversations w0))
            \<longrightarrow> (\<forall>j < length (conversations w0).
                  \<exists>added. transcript_or_empty (conversations (snd (serve cfg e req w0)) ! j)
                          = transcript_or_empty (conversations w0 ! j) @ added)"
    using serve_transcripts_grow by blast
  from a1 a2 a3 a4 a5 a6 a7 show ?thesis by blast
qed

text \<open>
  The stored session holds one turn; after the request it holds that turn and two
  more, seen from the stage that appends and from the whole request.
\<close>

theorem C5_transcript_append_only_witness:
  "0 < length (conversations return_visit)
   \<and> conversations return_visit ! 0 = returning_row
   \<and> distinct (map c_id (conversations return_visit))
   \<and> transcript (conversations (snd (withConversation no_twilio
        (calm_env 1000 (assigned_row ''c1'' 1000) fever_reply)
        (twilio_message ''I have a fever'') ''h1'' ''General'' ''15559876543'' ''15551234567''
        returning_row return_visit)) ! 0)
     = Some [\<lparr>role = ''patient'', content = JStr ''hello'', timestamp = 500,
               turn_messageSid = Some ''SM0''\<rparr>,
             \<lparr>role = ''patient'', content = JStr ''I have a fever'', timestamp = 1000,
               turn_messageSid = Some ''SM1''\<rparr>,
             \<lparr>role = ''assistant'', content = JStr ''ok'', timestamp = 1000,
               turn_messageSid = None\<rparr>]
   \<and> transcript_or_empty (conversations (snd (serve no_twilio
        (calm_env 1000 (assigned_row ''c1'' 1000) fever_reply)
        (twilio_form ''I have a fever'') return_visit)) ! 0)
     = transcript_or_empty (conversations return_visit ! 0)
       @ [\<lparr>role = ''patient'', content = JStr ''I have a fever'', timestamp = 1000,
            turn_messageSid = Some ''SM1''\<rparr>,
          \<lparr>role = ''assistant'', content = JStr ''ok'', timestamp = 1000,
            turn_messageSid = None\<rparr>]"
proof -
  have h1: "0 < length (conversations return_visit)"
    by (simp add: return_visit_def)
  have h2: "conversations return_visit ! 0 = returning_row"
    by (simp add: return_visit_def)
  have h3: "distinct (map c_id (conversations return_visit))"
    by (simp add: return_visit_def)
  have run: "transcript_or_empty (conversations (snd (serve no_twilio
        (calm_env 1000 (assigned_row ''c1'' 1000) fever_reply)
        (twilio_form ''I have a fever'') return_visit)) ! 0)
     = transcript_or_empty (conversations return_visit ! 0)
       @ [\<lparr>role = ''patient'', content = JStr ''I have a fever'', timestamp = 1000,
            turn_messageSid = Some ''SM1''\<rparr>,
          \<lparr>role = ''assistant'', content = JStr ''ok'', timestamp = 1000,
            turn_messageSid = None\<rparr>]"
    by (simp add: handler_defs sample_defs)
  show ?thesis
    using h1 h2 h3 run
      C5_transcript_append_only [OF h1 h2,
        where m = "twilio_message ''I have a fever''"
          and e = "calm_env 1000 (assigned_row ''c1'' 1000) fever_reply"
          and cfg = no_twilio and hospitalId = "''h1''" and hospitalName = "''General''"
          and hospitalWhatsApp = "''15559876543''" and patientPhone = "''15551234567''"]
    by (simp add: sample_defs send_completes_def unset_def transcript_or_empty_def)
qed

section \<open>Hospital lookup\<close>

text \<open>
  C6. The fallback query filters on the organization type alone. With one hospital in
  the table, of type \<^verbatim>\<open>'hospital'\<close> and with WhatsApp disabled, the exact lookup finds
  nothing (it asks for enabled rows) and the fallback returns that disabled hospital:
  the request goes on and a session is stored under it.
\<close>

theorem C6_fallback_ignores_enabled:
  "resolveHospital [demo_hospital\<lparr>whatsapp_enabled := False\<rparr>]
       (stripAddress ''whatsapp:+15559876543'') = (Some ''h1'', ''General'')
   \<and> map hospital_id (conversations (snd (serve no_twilio
        (calm_env 1000 (assigned_row ''c1'' 1000) fever_reply) (twilio_form ''I have a fever'')
        \<lparr>hospitals = [demo_hospital\<lparr>whatsapp_enabled := False\<rparr>], conversations = [],
          outbox = []\<rparr>))) = [''h1'']"
  by (simp add: handler_defs sample_defs)

text \<open>
  When two enabled rows match the address, one under each form, \<^verbatim>\<open>.single()\<close> yields no
  row and the fallback decides: here it picks a third hospital with another number.
\<close>

lemma several_matches_fall_back:
  "resolveHospital
     [demo_hospital\<lparr>organization_type := Some ''clinic''\<rparr>,
      demo_hospital\<lparr>h_id := ''h2'', h_name := ''Clinic'', whatsapp_number := Some ''15559876543'',
                     organization_type := Some ''clinic''\<rparr>,
      demo_hospital\<lparr>h_id := ''h3'', h_name := ''Other'', whatsapp_number := Some ''+15550000000''\<rparr>]
     ''15559876543'' = (Some ''h3'', ''Other'')"
  by (simp add: handler_defs sample_defs)

text \<open>With exactly one enabled match, under either form, that hospital is taken.\<close>

lemma one_match_wins:
  assumes "filter (matches_number n) hs = [h]"
  shows "resolveHospital hs n = (Some (h_id h), h_name h)"
  using assms by (simp add: resolveHospital_def hospital_query_def single_row_def)

text \<open>
  When no row of the hospitals table matches the address (in either form, enabled) and
  no row at all has the organization type \<^verbatim>\<open>'hospital'\<close>, the request answers with the
  not-configured reply of its channel, a JSON object for the bot and a message
  envelope for Twilio, and leaves the tables and the outgoing calls as they were.
\<close>

lemma no_hospital_row_not_configured:
  assumes "http_method req \<noteq> ''OPTIONS''"
      and "decode e req = Inr m"
      and "\<forall>h \<in> set (hospitals w). \<not> matches_number (stripAddress (msg_to m)) h"
      and "\<forall>h \<in> set (hospitals w). organization_type h \<noteq> Some ''hospital''"
  shows \<open>serve cfg e req w =
           ((if includes_str (contentType req) ''application/json'' then
               JsonResponse 200
                 [(''success'', JBool False),
                  (''error'', JStr ''Service not configured''),
                  (''response'', JStr ''Sorry, this service is not configured. Please contact the hospital directly.'')]
             else
               XmlResponse 200
                 ''<?xml version="1.0" encoding="UTF-8"?><Response><Message>Sorry, this service is not configured. Please contact the hospital directly.</Message></Response>''),
            w)\<close>
proof -
  have "filter (matches_number (stripAddress (msg_to m))) (hospitals w) = []"
    using assms(3) by (simp add: filter_empty_conv)
  then have q: "hospital_query (hospitals w) (stripAddress (msg_to m)) = None"
    by (simp add: hospital_query_def single_row_def)
  have "filter (\<lambda>h. organization_type h = Some ''hospital'') (hospitals w) = []"
    using assms(4) by (simp add: filter_empty_conv)
  then have f: "fallbackHospital (hospitals w) = None"
    by (simp add: fallbackHospital_def single_row_def)
  from q f have "resolveHospital (hospitals w) (stripAddress (msg_to m)) = (None, ''the hospital'')"
    by (simp add: resolveHospital_def)
  then have "routed cfg e m w = (Inr (notConfigured m), w)"
    by (simp add: routed_def)
  with assms(1,2) decode_channel [OF assms(2)] show ?thesis
    by (simp add: serve_def notConfigured_def)
qed

text \<open>A table whose only row is a disabled clinic, on either channel.\<close>

lemma clinic_only_not_configured:
  \<open>serve with_twilio (calm_env 1000 (assigned_row ''c1'' 1000) fever_reply)
       (twilio_form ''I have a fever'') clinic_only
     = (XmlResponse 200
          ''<?xml version="1.0" encoding="UTF-8"?><Response><Message>Sorry, this service is not configured. Please contact the hospital directly.</Message></Response>'',
        clinic_only)
   \<and> serve with_twilio (calm_env 1000 (assigned_row ''c1'' 1000) fever_reply)
       (bot_json ''I have a fever'') clinic_only
     = (JsonResponse 200
          [(''success'', JBool False),
           (''error'', JStr ''Service not configured''),
           (''response'', JStr ''Sorry, this service is not configured. Please contact the hospital directly.'')],
        clinic_only)\<close>
  by (simp add: handler_defs sample_defs)

text \<open>
  C7. The claim holds only while the table has no row of type \<^verbatim>\<open>'hospital'\<close> at all.
  Take a table whose only row is a hospital with WhatsApp disabled: no enabled tenant
  matches and no enabled tenant exists to fall back on, yet the request is not answered
  with the not-configured reply. The fallback query, which does not filter on the
  enabled flag, returns the disabled hospital; a session is inserted under it, the AI
  service and the appointment service are called, and the answer is the empty
  acknowledgment.
\<close>

theorem C7_disabled_fallback_served:
  \<open>map whatsapp_enabled (hospitals disabled_only) = [False]
   \<and> conversations disabled_only = []
   \<and> fst (serve no_twilio (calm_env 1000 (assigned_row ''c1'' 1000) fever_reply)
          (twilio_form ''I have a fever'') disabled_only)
     = XmlResponse 200 ''<?xml version="1.0" encoding="UTF-8"?><Response></Response>''
   \<and> map hospital_id (conversations (snd (serve no_twilio
          (calm_env 1000 (assigned_row ''c1'' 1000) fever_reply)
          (twilio_form ''I have a fever'') disabled_only))) = [''h1'']
   \<and> length (outbox (snd (serve no_twilio
          (calm_env 1000 (assigned_row ''c1'' 1000) fever_reply)
          (twilio_form ''I have a fever'') disabled_only))) = 2\<close>
  by (simp add: handler_defs sample_defs)

section \<open>What the second update writes\<close>

text \<open>
  C8. The update after the merge leaves the id, the hospital, the phone, the
  appointment flag and both timestamps of a row as they were, and sets the transcript
  and the six merged columns; a stored column is never \<open>JUndefined\<close>, so every merged
  value is written. The preferred date and time of the reply do not reach the table:
  the whole request stores the same rows whatever they are. They travel in the
  appointment request only, null when the reply has none.
\<close>

theorem C8_slot_is_transient:
  "c_id (finalUpdate conversation aiResult finalT row) = c_id row
   \<and> hospital_id (finalUpdate conversation aiResult finalT row) = hospital_id row
   \<and> patient_phone (finalUpdate conversation aiResult finalT row) = patient_phone row
   \<and> appointment_created (finalUpdate conversation aiResult finalT row) = appointment_created row
   \<and> last_message_at (finalUpdate conversation aiResult finalT row) = last_message_at row
   \<and> created_at (finalUpdate conversation aiResult finalT row) = created_at row
   \<and> transcript (finalUpdate conversation aiResult finalT row) = Some finalT
   \<and> conversation_state (finalUpdate conversation aiResult finalT row)
       = js_or (ai_newState aiResult) (conversation_state conversation)
   \<and> collected_symptoms (finalUpdate conversation aiResult finalT row)
       = js_or (ai_symptoms aiResult) (collected_symptoms conversation)
   \<and> triage_level (finalUpdate conversation aiResult finalT row)
       = js_or (ai_triageLevel aiResult) (triage_level conversation)
   \<and> urgency_score (finalUpdate conversation aiResult finalT row)
       = js_or (ai_urgencyScore aiResult) (urgency_score conversation)
   \<and> first_aid_given (finalUpdate conversation aiResult finalT row)
       = js_or (ai_firstAid aiResult) (first_aid_given conversation)
   \<and> patient_name (finalUpdate conversation aiResult finalT row)
       = js_or (ai_patientName aiResult) (patient_name conversation)
   \<and> conversations (snd (serve cfg
         (e\<lparr>ai_outcome := Inr (aiResult\<lparr>ai_preferredDate := d, ai_preferredTime := t\<rparr>)\<rparr>)
         req w))
       = conversations (snd (serve cfg (e\<lparr>ai_outcome := Inr aiResult\<rparr>) req w))
   \<and> a_preferredDate (appointmentBody conversation hospitalId patientPhone aiResult finalT)
       = js_or (ai_preferredDate aiResult) JNull
   \<and> a_preferredTime (appointmentBody conversation hospitalId patientPhone aiResult finalT)
       = js_or (ai_preferredTime aiResult) JNull"
  by (simp add: finalUpdate_def merged_defs serve_ignores_slot appointmentBody_def
      preferredDate_def preferredTime_def)

text \<open>
  A reply that asks for a slot: the slot is in the appointment request, the stored
  session keeps its creation time and flag, and the request stores what it stores
  without the slot.
\<close>

theorem C8_slot_is_transient_witness:
  "a_preferredDate (appointmentBody returning_row ''h1'' ''15551234567''
       (fever_reply\<lparr>ai_preferredDate := JStr ''2026-11-05'', ai_preferredTime := JStr ''09:30''\<rparr>) [])
     = JStr ''2026-11-05''
   \<and> created_at (finalUpdate returning_row
       (fever_reply\<lparr>ai_preferredDate := JStr ''2026-11-05'', ai_preferredTime := JStr ''09:30''\<rparr>)
       [] returning_row) = 500
   \<and> collected_symptoms (finalUpdate returning_row
       (fever_reply\<lparr>ai_preferredDate := JStr ''2026-11-05'', ai_preferredTime := JStr ''09:30''\<rparr>)
       [] returning_row) = JArr [JStr ''fever'']
   \<and> conversations (snd (serve no_twilio
        ((calm_env 1000 (assigned_row ''c1'' 1000) fever_reply)
           \<lparr>ai_outcome := Inr (fever_reply\<lparr>ai_preferredDate := JStr ''2026-11-05'',
                                           ai_preferredTime := JStr ''09:30''\<rparr>)\<rparr>)
        (twilio_form ''I have a fever'') return_visit))
     = conversations (snd (serve no_twilio
        ((calm_env 1000 (assigned_row ''c1'' 1000) fever_reply)\<lparr>ai_outcome := Inr fever_reply\<rparr>)
        (twilio_form ''I have a fever'') return_visit))"
  using C8_slot_is_transient
    [where conversation = returning_row and row = returning_row and finalT = "[]"
       and aiResult = "fever_reply\<lparr>ai_preferredDate := JStr ''2026-11-05'',
                                   ai_preferredTime := JStr ''09:30''\<rparr>"
       and hospitalId = "''h1''" and patientPhone = "''15551234567''"]
    C8_slot_is_transient
    [where aiResult = fever_reply and d = "JStr ''2026-11-05''" and t = "JStr ''09:30''"
       and cfg = no_twilio and e = "calm_env 1000 (assigned_row ''c1'' 1000) fever_reply"
       and req = "twilio_form ''I have a fever''" and w = return_visit]
  by (simp add: js_or_def fever_reply_def reply_only_def returning_row_def assigned_row_def)

section \<open>Twilio credentials not configured\<close>

text \<open>
  C9. Take a request of the Twilio channel while the account SID or the auth token is
  unset. The send helper returns null and changes nothing. The whole request then
  answers and stores exactly what it would with any configuration under which the
  send returns; the two runs differ at most in the Twilio messages sent, and this run
  sends none. After the AI service's reply, with the appointment call returning when
  made, the handler stores the merged session with both turns, makes the appointment
  call when the decision is truthy, and answers with the empty acknowledgment.
\<close>

theorem C9_unconfigured_send_skipped:
  assumes "\<not> includes_str (contentType req) ''application/json''"
      and "unset (TWILIO_ACCOUNT_SID cfg) \<or> unset (TWILIO_AUTH_TOKEN cfg)"
  shows \<open>sendWhatsAppMessageViaTwilio cfg e from_number to_number text w = (Inr JNull, w)
         \<and> apart_from_twilio (serve cfg e req w)
             (serve cfg' (e\<lparr>twilio_outcome := Inr sent\<rparr>) req w)
         \<and> filter is_twilio (outbox (snd (serve cfg e req w))) = filter is_twilio (outbox w)
         \<and> (\<not> isBaileysBot m \<and> appointment_outcome e = None \<longrightarrow>
              afterReply cfg e m hospitalId hospitalWhatsApp patientPhone conversation updatedT
                aiResult w1 =
              (Inr (XmlResponse 200 ''<?xml version="1.0" encoding="UTF-8"?><Response></Response>''),
               w1\<lparr>conversations :=
                     update_eq_id (c_id conversation)
                       (finalUpdate conversation aiResult
                          (finalTranscript updatedT aiResult (t_outbound e)))
                       (conversations w1),
                   outbox := outbox w1 @
                     (if truthy (shouldCreateAppointment conversation aiResult)
                      then [CreateAppointment
                              (appointmentBody conversation hospitalId patientPhone aiResult
                                 (finalTranscript updatedT aiResult (t_outbound e)))]
                      else [])\<rparr>))\<close>
proof -
  have "\<not> isBaileysBot m \<and> appointment_outcome e = None \<longrightarrow>
              afterReply cfg e m hospitalId hospitalWhatsApp patientPhone conversation updatedT
                aiResult w1 =
              (Inr (successResponse m aiResult conversation),
               w1\<lparr>conversations :=
                     update_eq_id (c_id conversation)
                       (finalUpdate conversation aiResult
                          (finalTranscript updatedT aiResult (t_outbound e)))
                       (conversations w1),
                   outbox := outbox w1 @
                     (if truthy (shouldCreateAppointment conversation aiResult)
                      then [CreateAppointment
                              (appointmentBody conversation hospitalId patientPhone aiResult
                                 (finalTranscript updatedT aiResult (t_outbound e)))]
                      else [])\<rparr>)"
    using assms(2)
    by (auto simp: afterReply_def sendWhatsAppMessageViaTwilio_def Let_def)
  then show ?thesis
    using send_skipped [OF assms(2)] serve_unsent [OF assms]
    by (simp add: successResponse_def)
qed

text \<open>
  A first message over Twilio with no credentials: the answer is the empty
  acknowledgment and two calls leave (AI service, appointment), none to Twilio; with
  credentials the same request also sends the reply.
\<close>

theorem C9_unconfigured_send_skipped_witness:
  \<open>\<not> includes_str (contentType (twilio_form ''I have a fever'')) ''application/json''
   \<and> unset (TWILIO_ACCOUNT_SID no_twilio)
   \<and> apart_from_twilio
       (serve no_twilio (calm_env 1000 (assigned_row ''c1'' 1000) fever_reply)
          (twilio_form ''I have a fever'') first_visit)
       (serve with_twilio
          ((calm_env 1000 (assigned_row ''c1'' 1000) fever_reply)\<lparr>twilio_outcome := Inr JNull\<rparr>)
          (twilio_form ''I have a fever'') first_visit)
   \<and> fst (serve no_twilio (calm_env 1000 (assigned_row ''c1'' 1000) fever_reply)
          (twilio_form ''I have a fever'') first_visit)
     = XmlResponse 200 ''<?xml version="1.0" encoding="UTF-8"?><Response></Response>''
   \<and> length (outbox (snd (serve no_twilio (calm_env 1000 (assigned_row ''c1'' 1000) fever_reply)
          (twilio_form ''I have a fever'') first_visit))) = 2
   \<and> filter is_twilio (outbox (snd (serve no_twilio
          (calm_env 1000 (assigned_row ''c1'' 1000) fever_reply)
          (twilio_form ''I have a fever'') first_visit))) = []
   \<and> filter is_twilio (outbox (snd (serve with_twilio
          (calm_env 1000 (assigned_row ''c1'' 1000) fever_reply)
          (twilio_form ''I have a fever'') first_visit)))
     = [TwilioMessage ''whatsapp:+15559876543'' ''whatsapp:+15551234567'' (JStr ''ok'')]\<close>
proof -
  let ?e = "calm_env 1000 (assigned_row ''c1'' 1000) fever_reply"
  let ?req = "twilio_form ''I have a fever''"
  have h1: "\<not> includes_str (contentType ?req) ''application/json''"
    by (simp add: contentType_def str_or_def twilio_form_def)
  have h2: "unset (TWILIO_ACCOUNT_SID no_twilio) \<or> unset (TWILIO_AUTH_TOKEN no_twilio)"
    by (simp add: unset_def no_twilio_def)
  have h3: "unset (TWILIO_ACCOUNT_SID no_twilio)"
    by (simp add: unset_def no_twilio_def)
  have run: "fst (serve no_twilio ?e ?req first_visit)
               = successResponse (twilio_message ''I have a fever'') fever_reply
                   (assigned_row ''c1'' 1000)
             \<and> length (outbox (snd (serve no_twilio ?e ?req first_visit))) = 2
             \<and> filter is_twilio (outbox (snd (serve with_twilio ?e ?req first_visit)))
               = [TwilioMessage ''whatsapp:+15559876543'' ''whatsapp:+15551234567'' (JStr ''ok'')]"
    by (simp add: handler_defs sample_defs)
  have empty: "filter is_twilio (outbox first_visit) = []"
    by (simp add: first_visit_def)
  show ?thesis
    using h1 h3 run empty
      C9_unconfigured_send_skipped [OF h1 h2, where e = ?e and w = first_visit
        and cfg' = with_twilio and sent = JNull]
    by (simp add: successResponse_def twilio_message_def)
qed

section \<open>The patient name sent downstream\<close>

text \<open>
  C10. When the reply and the stored session both lack a patient name (undefined or
  null), the decision is truthy and the send has not thrown, the last call of the
  request is the appointment request, and its \<^verbatim>\<open>patientName\<close> is the literal
  \<^verbatim>\<open>'WhatsApp Patient'\<close>.
\<close>

theorem C10_placeholder_name:
  assumes "ai_patientName aiResult = JUndefined \<or> ai_patientName aiResult = JNull"
      and "patient_name conversation = JUndefined \<or> patient_name conversation = JNull"
      and "truthy (shouldCreateAppointment conversation aiResult)"
      and "send_completes cfg e m"
  shows "last (outbox (snd (afterReply cfg e m hospitalId hospitalWhatsApp patientPhone
                       conversation updatedT aiResult w)))
           = CreateAppointment (appointmentBody conversation hospitalId patientPhone aiResult
               (finalTranscript updatedT aiResult (t_outbound e)))
         \<and> a_patientName (appointmentBody conversation hospitalId patientPhone aiResult
               (finalTranscript updatedT aiResult (t_outbound e)))
           = JStr ''WhatsApp Patient''"
proof -
  have "\<not> truthy (patientName aiResult conversation)"
    using assms(1,2) by (auto simp: patientName_def js_or_def)
  then have "a_patientName (appointmentBody conversation hospitalId patientPhone aiResult
               (finalTranscript updatedT aiResult (t_outbound e))) = JStr ''WhatsApp Patient''"
    by (simp add: appointmentBody_def js_or_def)
  moreover have "last (outbox (snd (afterReply cfg e m hospitalId hospitalWhatsApp patientPhone
                       conversation updatedT aiResult w)))
           = CreateAppointment (appointmentBody conversation hospitalId patientPhone aiResult
               (finalTranscript updatedT aiResult (t_outbound e)))"
    using assms(3,4) by (simp add: afterReply_outbox)
  ultimately show ?thesis by simp
qed

theorem C10_placeholder_name_witness:
  "ai_patientName fever_reply = JUndefined
   \<and> patient_name returning_row = JNull
   \<and> truthy (shouldCreateAppointment returning_row fever_reply)
   \<and> send_completes no_twilio (calm_env 1000 (assigned_row ''c1'' 1000) fever_reply)
       (twilio_message ''I have a fever'')
   \<and> a_patientName (appointmentBody returning_row ''h1'' ''15551234567'' fever_reply
       (finalTranscript [] fever_reply
          (t_outbound (calm_env 1000 (assigned_row ''c1'' 1000) fever_reply))))
     = JStr ''WhatsApp Patient''"
proof -
  let ?e = "calm_env 1000 (assigned_row ''c1'' 1000) fever_reply"
  have n1: "ai_patientName fever_reply = JUndefined"
    by (simp add: fever_reply_def reply_only_def)
  have n2: "patient_name returning_row = JNull"
    by (simp add: returning_row_def assigned_row_def)
  have h1: "ai_patientName fever_reply = JUndefined \<or> ai_patientName fever_reply = JNull"
    using n1 by simp
  have h2: "patient_name returning_row = JUndefined \<or> patient_name returning_row = JNull"
    using n2 by simp
  have h3: "truthy (shouldCreateAppointment returning_row fever_reply)"
    by (simp add: shouldCreateAppointment_def js_and_def js_or_def js_not_def merged_defs
        fever_reply_def reply_only_def returning_row_def assigned_row_def)
  have h4: "send_completes no_twilio ?e (twilio_message ''I have a fever'')"
    by (simp add: send_completes_def unset_def no_twilio_def)
  show ?thesis
    using n1 n2 h3 h4
      C10_placeholder_name [OF h1 h2 h3 h4, where hospitalId = "''h1''"
        and patientPhone = "''15551234567''" and updatedT = "[]"]
    by simp
qed

end
